theory Spec2Isabelle
  imports Complex_Main "HOL-Library.AList" "HOL-Library.Sublist" "HOL-Library.Multiset"
begin

section \<open>Data model of \<open>mcp_vendor.py\<close>\<close>

text \<open>
  The two string enumerations of the module. \<open>PaymentStatus.PAID\<close> is written
  \<open>P_PAID\<close> (and its siblings likewise) because \<open>OrderStatus.PAID\<close> already owns
  the constructor name.
\<close>

datatype OrderStatus = PENDING | ACCEPTED | REJECTED | READY | ASSIGNED | DELIVERED | PAID

datatype PaymentStatus = P_UNREQUESTED | P_REQUESTED | P_PAID

text \<open>The value of a member: the string it is, as a \<open>str\<close> subclass.\<close>

fun status_value :: "OrderStatus \<Rightarrow> string" where
  "status_value PENDING = ''pending''"
| "status_value ACCEPTED = ''accepted''"
| "status_value REJECTED = ''rejected''"
| "status_value READY = ''ready''"
| "status_value ASSIGNED = ''assigned''"
| "status_value DELIVERED = ''delivered''"
| "status_value PAID = ''paid''"

fun status_member :: "OrderStatus \<Rightarrow> string" where
  "status_member PENDING = ''PENDING''"
| "status_member ACCEPTED = ''ACCEPTED''"
| "status_member REJECTED = ''REJECTED''"
| "status_member READY = ''READY''"
| "status_member ASSIGNED = ''ASSIGNED''"
| "status_member DELIVERED = ''DELIVERED''"
| "status_member PAID = ''PAID''"

fun payment_value :: "PaymentStatus \<Rightarrow> string" where
  "payment_value P_UNREQUESTED = ''unrequested''"
| "payment_value P_REQUESTED = ''requested''"
| "payment_value P_PAID = ''paid''"

text \<open>
  An f-string formats a member of a \<open>(str, Enum)\<close> class in one of two ways, depending on
  the interpreter: up to Python 3.10 as the member's value (\<open>pending\<close>), from Python 3.11
  on as class and member name (\<open>OrderStatus.PENDING\<close>). The module does not fix the
  interpreter, so the rendering is a parameter of every function that formats a status.
\<close>

datatype enum_format = ByValue | ByMember

fun fmt_status :: "enum_format \<Rightarrow> OrderStatus \<Rightarrow> string" where
  "fmt_status ByValue st = status_value st"
| "fmt_status ByMember st = ''OrderStatus.'' @ status_member st"

record item =
  sku :: string
  qty :: int

record customer_rec =
  customer_name :: string
  customer_phone :: string

record agent =
  agent_id :: string
  agent_name :: string
  agent_phone :: string

text \<open>The dictionary built by \<open>new_order\<close>, one field per key.\<close>

record order =
  order_id :: string
  vendor_id :: string
  customer :: customer_rec
  address :: string
  items :: "item list"
  status :: OrderStatus
  created_at :: int
  accepted_at :: "int option"
  ready_at :: "int option"
  assigned_at :: "int option"
  delivered_at :: "int option"
  paid_at :: "int option"
  delivery_agent :: "agent option"
  payment_requested :: bool
  payment_status :: PaymentStatus

text \<open>
  The module-level dictionary \<open>orders\<close>. A Python dictionary iterates in insertion order
  and an assignment to an existing key keeps the key's position, which is what
  \<open>AList.update\<close> does on an association list.
\<close>

type_synonym store = "(string \<times> order) list"

definition delivery_agents :: "(string \<times> agent) list" where
  "delivery_agents =
     [(''agent_1'', \<lparr>agent_id = ''agent_1'', agent_name = ''Sam'', agent_phone = ''919991112223''\<rparr>),
      (''agent_2'', \<lparr>agent_id = ''agent_2'', agent_name = ''Asha'', agent_phone = ''918881112223''\<rparr>),
      (''agent_3'', \<lparr>agent_id = ''agent_3'', agent_name = ''Raj'', agent_phone = ''917771112223''\<rparr>)]"

text \<open>The dictionaries the tools return: string keys, values of the few kinds that occur.\<close>

datatype pyval =
    PyBool bool
  | PyStr string
  | PyStatus OrderStatus
  | PyList "pyval list"
  | PyDict "(string \<times> pyval) list"

type_synonym response = "(string \<times> pyval) list"

definition ok :: "response \<Rightarrow> bool" where
  "ok r = (map_of r ''ok'' = Some (PyBool True))"

definition error_of :: "response \<Rightarrow> string option" where
  "error_of r = (case map_of r ''error'' of Some (PyStr e) \<Rightarrow> Some e | _ \<Rightarrow> None)"

definition failure :: "string \<Rightarrow> response" where
  "failure e = [(''ok'', PyBool False), (''error'', PyStr e)]"

text \<open>Truthiness of an \<open>Optional[str]\<close>: \<open>None\<close> and the empty string are false.\<close>

fun truthy :: "string option \<Rightarrow> bool" where
  "truthy None = False"
| "truthy (Some s) = (s \<noteq> [])"

section \<open>Utility functions\<close>

definition get_order :: "store \<Rightarrow> string \<Rightarrow> order option" where
  "get_order orders oid = map_of orders oid"

definition validate_status :: "enum_format \<Rightarrow> order \<Rightarrow> OrderStatus \<Rightarrow> string option" where
  "validate_status fmt ord expected_status =
     (if status ord \<noteq> expected_status
      then Some (''Order must be '' @ [CHR 0x27] @ fmt_status fmt expected_status @ [CHR 0x27]
                 @ '', but is '' @ [CHR 0x27] @ fmt_status fmt (status ord) @ [CHR 0x27] @ ''.'')
      else None)"

text \<open>
  \<open>new_order\<close>: the identifier (the first eight characters of a fresh UUID) and the clock
  reading are inputs. The function has no failure path and does not look at \<open>items\<close>.
\<close>

definition new_order ::
  "string \<Rightarrow> int \<Rightarrow> string \<Rightarrow> string \<Rightarrow> string \<Rightarrow> string \<Rightarrow> item list \<Rightarrow> store \<Rightarrow> store \<times> string" where
  "new_order oid t vid cname cphone addr its orders =
     (AList.update oid
        \<lparr>order_id = oid, vendor_id = vid,
         customer = \<lparr>customer_name = cname, customer_phone = cphone\<rparr>,
         address = addr, items = its, status = PENDING, created_at = t,
         accepted_at = None, ready_at = None, assigned_at = None, delivered_at = None,
         paid_at = None, delivery_agent = None, payment_requested = False,
         payment_status = P_UNREQUESTED\<rparr> orders,
      oid)"

section \<open>Tools\<close>

text \<open>
  Every tool takes the store and returns the store it leaves behind together with its
  result. A mutation \<open>o[k] = v\<close> of the dictionary fetched by \<open>get_order\<close> is a mutation of
  the stored order, written back with \<open>AList.update\<close> under the same key.
\<close>

record listing =
  orders_of :: "order list"
  count :: nat

definition sort_created_desc :: "order list \<Rightarrow> order list" where
  \<comment> \<open>\<open>list.sort(key=created_at, reverse=True)\<close>: reverse, sort stably, reverse back.\<close>
  "sort_created_desc xs = rev (sort_key created_at (rev xs))"

definition orders_list :: "string \<Rightarrow> string option \<Rightarrow> store \<Rightarrow> store \<times> listing" where
  "orders_list vid status_filter orders =
     (let result = filter (\<lambda>x. vendor_id x = vid) (map snd orders);
          result = (if truthy status_filter
                    then filter (\<lambda>x. Some (status_value (status x)) = status_filter) result
                    else result);
          result = sort_created_desc result
      in (orders, \<lparr>orders_of = result, count = length result\<rparr>))"

definition order_decide ::
  "enum_format \<Rightarrow> int \<Rightarrow> string \<Rightarrow> bool \<Rightarrow> store \<Rightarrow> store \<times> response" where
  "order_decide fmt t oid accept orders =
     (case get_order orders oid of
        None \<Rightarrow> (orders, failure ''order_not_found'')
      | Some ord \<Rightarrow>
          if status ord \<noteq> PENDING
          then (orders, failure (''Order already '' @ [CHR 0x27] @ fmt_status fmt (status ord)
                                 @ [CHR 0x27] @ ''.''))
          else if accept
          then (let ord = ord\<lparr>status := ACCEPTED\<rparr>;
                    ord = ord\<lparr>accepted_at := Some t\<rparr>
                in (AList.update oid ord orders,
                    [(''ok'', PyBool True),
                     (''status'', PyStatus (status ord)),
                     (''vendor_message'', PyStr (''Order '' @ oid @ '' accepted.'')),
                     (''customer_message'',
                        PyStr (''Your order '' @ oid @ '' is confirmed and being processed.''))]))
          else (let ord = ord\<lparr>status := REJECTED\<rparr>
                in (AList.update oid ord orders,
                    [(''ok'', PyBool True),
                     (''status'', PyStatus (status ord)),
                     (''vendor_message'', PyStr (''Order '' @ oid @ '' rejected.'')),
                     (''customer_message'',
                        PyStr ''Unfortunately, your order could not be completed.'')])))"

definition order_ready :: "enum_format \<Rightarrow> int \<Rightarrow> string \<Rightarrow> store \<Rightarrow> store \<times> response" where
  "order_ready fmt t oid orders =
     (case get_order orders oid of
        None \<Rightarrow> (orders, failure ''order_not_found'')
      | Some ord \<Rightarrow>
          (let error = validate_status fmt ord ACCEPTED in
           if truthy error then (orders, failure (the error))
           else (let ord = ord\<lparr>status := READY\<rparr>;
                     ord = ord\<lparr>ready_at := Some t\<rparr>;
                     agents = map (\<lambda>a. PyDict [(''id'', PyStr (agent_id a)),
                                                (''name'', PyStr (agent_name a))])
                                  (map snd delivery_agents)
                 in (AList.update oid ord orders,
                     [(''ok'', PyBool True),
                      (''status'', PyStatus (status ord)),
                      (''vendor_message'',
                         PyStr (''Order '' @ oid @ '' is ready. Choose a delivery agent.'')),
                      (''delivery_agent_options'', PyList agents)]))))"

definition delivery_assign ::
  "enum_format \<Rightarrow> int \<Rightarrow> string \<Rightarrow> string \<Rightarrow> store \<Rightarrow> store \<times> response" where
  "delivery_assign fmt t oid aid orders =
     (case get_order orders oid of
        None \<Rightarrow> (orders, failure ''order_not_found'')
      | Some ord \<Rightarrow>
          (let error = validate_status fmt ord READY in
           if truthy error then (orders, failure (the error))
           else (case map_of delivery_agents aid of
                   None \<Rightarrow> (orders, failure ''agent_not_found'')
                 | Some ag \<Rightarrow>
                     (let ord = ord\<lparr>status := ASSIGNED\<rparr>;
                          ord = ord\<lparr>assigned_at := Some t\<rparr>;
                          ord = ord\<lparr>delivery_agent := Some ag\<rparr>
                      in (AList.update oid ord orders,
                          [(''ok'', PyBool True),
                           (''status'', PyStatus (status ord)),
                           (''vendor_message'',
                              PyStr (''Agent '' @ agent_name ag @ '' assigned to order '' @ oid
                                     @ ''.'')),
                           (''agent_instructions'',
                              PyDict [(''to_agent'',
                                PyDict [(''message'',
                                  PyStr (''Please pick up order '' @ oid @ '' and deliver to ''
                                         @ customer_name (customer ord) @ '' at '' @ address ord
                                         @ ''.''))])])])))))"

definition payment_request ::
  "string \<Rightarrow> real option \<Rightarrow> string \<Rightarrow> store \<Rightarrow> store \<times> response" where
  "payment_request oid amount currency orders =
     (case get_order orders oid of
        None \<Rightarrow> (orders, failure ''order_not_found'')
      | Some ord \<Rightarrow>
          if status ord \<notin> set [ASSIGNED, DELIVERED]
          then (orders,
                failure ''Can only request payment for assigned or delivered orders.'')
          else (let ord = ord\<lparr>payment_status := P_REQUESTED\<rparr>
                in (AList.update oid ord orders,
                    [(''ok'', PyBool True),
                     (''vendor_message'',
                        PyStr (''Payment request sent for order '' @ oid @ ''.''))])))"

text \<open>
  \<open>order_delivered\<close> computes its error in one conditional expression. When the order is
  missing the error is the non-empty string \<open>order_not_found\<close>, so the mutation below the
  test is reached with an order only; the \<open>None\<close> case of the second \<open>case\<close> is dead.
\<close>

definition order_delivered :: "enum_format \<Rightarrow> int \<Rightarrow> string \<Rightarrow> store \<Rightarrow> store \<times> response" where
  "order_delivered fmt t oid orders =
     (let ordo = get_order orders oid;
          error = (case ordo of Some ord \<Rightarrow> validate_status fmt ord ASSIGNED
                               | None \<Rightarrow> Some ''order_not_found'')
      in if truthy error then (orders, failure (the error))
         else (case ordo of
                 None \<Rightarrow> (orders, failure ''order_not_found'')
               | Some ord \<Rightarrow>
                   (let ord = ord\<lparr>status := DELIVERED\<rparr>;
                        ord = ord\<lparr>delivered_at := Some t\<rparr>
                    in (AList.update oid ord orders,
                        [(''ok'', PyBool True), (''status'', PyStatus (status ord))]))))"

definition order_paid :: "int \<Rightarrow> string \<Rightarrow> store \<Rightarrow> store \<times> response" where
  "order_paid t oid orders =
     (case get_order orders oid of
        None \<Rightarrow> (orders, failure ''Order not found or payment not requested.'')
      | Some ord \<Rightarrow>
          if payment_status ord \<noteq> P_REQUESTED
          then (orders, failure ''Order not found or payment not requested.'')
          else (let ord = ord\<lparr>payment_status := P_PAID\<rparr>;
                    ord = ord\<lparr>status := PAID\<rparr>;
                    ord = ord\<lparr>paid_at := Some t\<rparr>
                in (AList.update oid ord orders,
                    [(''ok'', PyBool True), (''status'', PyStatus (status ord))])))"

section \<open>Calls, sequences of calls and reachable stores\<close>

text \<open>
  The six lifecycle tools as one datatype of calls, so that a statement can range over
  "every operation". Each call carries the arguments of its tool; the clock reading is
  supplied with the call.
\<close>

datatype call =
    OrderDecide string bool
  | OrderReady string
  | DeliveryAssign string string
  | OrderDelivered string
  | PaymentRequest string "real option" string
  | OrderPaid string

fun target :: "call \<Rightarrow> string" where
  "target (OrderDecide oid accept) = oid"
| "target (OrderReady oid) = oid"
| "target (DeliveryAssign oid aid) = oid"
| "target (OrderDelivered oid) = oid"
| "target (PaymentRequest oid amount currency) = oid"
| "target (OrderPaid oid) = oid"

fun call_tool :: "enum_format \<Rightarrow> int \<Rightarrow> call \<Rightarrow> store \<Rightarrow> store \<times> response" where
  "call_tool fmt t (OrderDecide oid accept) orders = order_decide fmt t oid accept orders"
| "call_tool fmt t (OrderReady oid) orders = order_ready fmt t oid orders"
| "call_tool fmt t (DeliveryAssign oid aid) orders = delivery_assign fmt t oid aid orders"
| "call_tool fmt t (OrderDelivered oid) orders = order_delivered fmt t oid orders"
| "call_tool fmt t (PaymentRequest oid amount currency) orders =
     payment_request oid amount currency orders"
| "call_tool fmt t (OrderPaid oid) orders = order_paid t oid orders"

fun run_calls :: "enum_format \<Rightarrow> (int \<times> call) list \<Rightarrow> store \<Rightarrow> store" where
  "run_calls fmt [] orders = orders"
| "run_calls fmt ((t, c) # cs) orders = run_calls fmt cs (fst (call_tool fmt t c orders))"

text \<open>
  The stores the program can be in: the empty dictionary the module starts with, extended
  by \<open>new_order\<close> (the two seed calls at import are of this form) and changed by the tools.
\<close>

inductive reachable :: "store \<Rightarrow> bool" where
  reachable_empty: "reachable []"
| reachable_new:
    "reachable orders \<Longrightarrow> reachable (fst (new_order oid t vid cname cphone addr its orders))"
| reachable_call:
    "reachable orders \<Longrightarrow> reachable (fst (call_tool fmt t c orders))"

definition seeded :: "int \<Rightarrow> int \<Rightarrow> string \<Rightarrow> string \<Rightarrow> store" where
  \<comment> \<open>The store after the two seed calls, with their clock readings and identifiers.\<close>
  "seeded t1 t2 oid1 oid2 =
     fst (new_order oid2 t2 ''vendor_1'' ''Arjun'' ''919876500002'' ''MG Road, BLR''
            [\<lparr>sku = ''samosa'', qty = 6\<rparr>]
            (fst (new_order oid1 t1 ''vendor_1'' ''Neha'' ''919876500001'' ''221B Baker St''
                    [\<lparr>sku = ''chai'', qty = 2\<rparr>] [])))"

section \<open>The transition table of the specification\<close>

text \<open>
  The precondition and the effect of each operation as the table of the specification
  gives them (section 4.2), written independently of the tools above and compared with
  them below. For \<open>assign\<close> the stored agent is the directory entry.
\<close>

fun precondition :: "call \<Rightarrow> order \<Rightarrow> bool" where
  "precondition (OrderDecide oid accept) ord = (status ord = PENDING)"
| "precondition (OrderReady oid) ord = (status ord = ACCEPTED)"
| "precondition (DeliveryAssign oid aid) ord =
     (status ord = READY \<and> map_of delivery_agents aid \<noteq> None)"
| "precondition (OrderDelivered oid) ord = (status ord = ASSIGNED)"
| "precondition (PaymentRequest oid amount currency) ord =
     (status ord = ASSIGNED \<or> status ord = DELIVERED)"
| "precondition (OrderPaid oid) ord = (payment_status ord = P_REQUESTED)"

fun effect :: "int \<Rightarrow> call \<Rightarrow> order \<Rightarrow> order" where
  "effect t (OrderDecide oid accept) ord =
     (if accept then ord\<lparr>status := ACCEPTED, accepted_at := Some t\<rparr>
      else ord\<lparr>status := REJECTED\<rparr>)"
| "effect t (OrderReady oid) ord = ord\<lparr>status := READY, ready_at := Some t\<rparr>"
| "effect t (DeliveryAssign oid aid) ord =
     ord\<lparr>status := ASSIGNED, assigned_at := Some t,
         delivery_agent := map_of delivery_agents aid\<rparr>"
| "effect t (OrderDelivered oid) ord = ord\<lparr>status := DELIVERED, delivered_at := Some t\<rparr>"
| "effect t (PaymentRequest oid amount currency) ord = ord\<lparr>payment_status := P_REQUESTED\<rparr>"
| "effect t (OrderPaid oid) ord =
     ord\<lparr>payment_status := P_PAID, status := PAID, paid_at := Some t\<rparr>"

text \<open>The edges of the transition graph: from the state of an order to its next status.\<close>

definition edge :: "order \<Rightarrow> OrderStatus \<Rightarrow> bool" where
  "edge ord st' =
     ((status ord = PENDING \<and> st' = ACCEPTED) \<or>
      (status ord = PENDING \<and> st' = REJECTED) \<or>
      (status ord = ACCEPTED \<and> st' = READY) \<or>
      (status ord = READY \<and> st' = ASSIGNED) \<or>
      (status ord = ASSIGNED \<and> st' = DELIVERED) \<or>
      (payment_status ord = P_REQUESTED \<and> st' = PAID))"

text \<open>What holds of every order of a reachable store.\<close>

definition order_inv :: "order \<Rightarrow> bool" where
  "order_inv ord =
     ((payment_status ord = P_PAID \<longrightarrow> status ord = PAID) \<and>
      (status ord = PAID \<longrightarrow> payment_status ord = P_PAID) \<and>
      (payment_status ord = P_REQUESTED \<longrightarrow> status ord = ASSIGNED \<or> status ord = DELIVERED) \<and>
      (accepted_at ord \<noteq> None \<longrightarrow> status ord \<noteq> PENDING \<and> status ord \<noteq> REJECTED) \<and>
      (ready_at ord \<noteq> None \<longrightarrow>
         status ord \<noteq> PENDING \<and> status ord \<noteq> REJECTED \<and> status ord \<noteq> ACCEPTED) \<and>
      (assigned_at ord \<noteq> None \<longrightarrow>
         status ord = ASSIGNED \<or> status ord = DELIVERED \<or> status ord = PAID) \<and>
      (delivered_at ord \<noteq> None \<longrightarrow> status ord = DELIVERED \<or> status ord = PAID) \<and>
      (paid_at ord \<noteq> None \<longrightarrow> status ord = PAID))"

definition store_inv :: "store \<Rightarrow> bool" where
  "store_inv orders = (\<forall>ord \<in> snd ` set orders. order_inv ord)"

text \<open>
  What a sequence of calls does to one order that is in the store: each call that targets
  it and meets its precondition applies its effect, every other call leaves it alone.
\<close>

fun apply_calls :: "string \<Rightarrow> (int \<times> call) list \<Rightarrow> order \<Rightarrow> order" where
  "apply_calls oid [] ord = ord"
| "apply_calls oid ((t, c) # cs) ord =
     apply_calls oid cs (if target c = oid \<and> precondition c ord then effect t c ord else ord)"

text \<open>The five optional timestamps and, for each, the call whose success sets it.\<close>

datatype stamp = AcceptedAt | ReadyAt | AssignedAt | DeliveredAt | PaidAt

fun stamp_of :: "stamp \<Rightarrow> order \<Rightarrow> int option" where
  "stamp_of AcceptedAt ord = accepted_at ord"
| "stamp_of ReadyAt ord = ready_at ord"
| "stamp_of AssignedAt ord = assigned_at ord"
| "stamp_of DeliveredAt ord = delivered_at ord"
| "stamp_of PaidAt ord = paid_at ord"

fun fires :: "stamp \<Rightarrow> call \<Rightarrow> bool" where
  "fires AcceptedAt (OrderDecide oid accept) = accept"
| "fires ReadyAt (OrderReady oid) = True"
| "fires AssignedAt (DeliveryAssign oid aid) = True"
| "fires DeliveredAt (OrderDelivered oid) = True"
| "fires PaidAt (OrderPaid oid) = True"
| "fires k c = False"

text \<open>
  A message names a state when it contains the state's value (\<open>pending\<close>) or its member
  name (\<open>PENDING\<close>), anywhere and in either rendering.
\<close>

definition names_status :: "string \<Rightarrow> OrderStatus \<Rightarrow> bool" where
  "names_status msg st = (sublist (status_value st) msg \<or> sublist (status_member st) msg)"

fun payment_member :: "PaymentStatus \<Rightarrow> string" where
  "payment_member P_UNREQUESTED = ''UNREQUESTED''"
| "payment_member P_REQUESTED = ''REQUESTED''"
| "payment_member P_PAID = ''PAID''"

definition names_payment :: "string \<Rightarrow> PaymentStatus \<Rightarrow> bool" where
  "names_payment msg ps = (sublist (payment_value ps) msg \<or> sublist (payment_member ps) msg)"

text \<open>The two orders of the seed calls, as \<open>new_order\<close> builds them.\<close>

definition seed1 :: "int \<Rightarrow> string \<Rightarrow> order" where
  "seed1 t oid =
     \<lparr>order_id = oid, vendor_id = ''vendor_1'',
      customer = \<lparr>customer_name = ''Neha'', customer_phone = ''919876500001''\<rparr>,
      address = ''221B Baker St'', items = [\<lparr>sku = ''chai'', qty = 2\<rparr>], status = PENDING,
      created_at = t, accepted_at = None, ready_at = None, assigned_at = None,
      delivered_at = None, paid_at = None, delivery_agent = None, payment_requested = False,
      payment_status = P_UNREQUESTED\<rparr>"

definition seed2 :: "int \<Rightarrow> string \<Rightarrow> order" where
  "seed2 t oid =
     \<lparr>order_id = oid, vendor_id = ''vendor_1'',
      customer = \<lparr>customer_name = ''Arjun'', customer_phone = ''919876500002''\<rparr>,
      address = ''MG Road, BLR'', items = [\<lparr>sku = ''samosa'', qty = 6\<rparr>], status = PENDING,
      created_at = t, accepted_at = None, ready_at = None, assigned_at = None,
      delivered_at = None, paid_at = None, delivery_agent = None, payment_requested = False,
      payment_status = P_UNREQUESTED\<rparr>"

text \<open>
  The scenario of the specification on the first seed order, in three prefixes: up to the
  assignment of an agent, up to the payment request, and the rejection of the order. The
  clock readings and the identifiers \<open>a\<close> and \<open>b\<close> are arbitrary; the seeds were created at
  times 1 and 2.
\<close>

definition to_assigned :: "(int \<times> call) list" where
  "to_assigned =
     [(3, OrderDecide ''a'' True), (4, OrderReady ''a''), (5, DeliveryAssign ''a'' ''agent_1'')]"

definition to_requested :: "(int \<times> call) list" where
  "to_requested = to_assigned @ [(6, PaymentRequest ''a'' None ''INR'')]"

definition seeds :: store where
  "seeds = seeded 1 2 ''a'' ''b''"

text \<open>
  The scenario continued to the end, and a second attempt at every transition after it.
\<close>

definition to_accepted :: "(int \<times> call) list" where
  "to_accepted = [(3, OrderDecide ''a'' True)]"

definition to_ready :: "(int \<times> call) list" where
  "to_ready = to_accepted @ [(4, OrderReady ''a'')]"

definition to_delivered_requested :: "(int \<times> call) list" where
  "to_delivered_requested =
     to_assigned @ [(6, OrderDelivered ''a''), (7, PaymentRequest ''a'' None ''INR'')]"

definition to_paid :: "(int \<times> call) list" where
  "to_paid = to_delivered_requested @ [(8, OrderPaid ''a'')]"

definition retries :: "(int \<times> call) list" where
  "retries =
     [(9, OrderDecide ''a'' True), (10, OrderReady ''a''), (11, DeliveryAssign ''a'' ''agent_2''),
      (12, OrderDelivered ''a''), (13, PaymentRequest ''a'' None ''INR''), (14, OrderPaid ''a'')]"

text \<open>
  A message quotes a state when it contains the state as the f-string renders it, between
  single quotes: the form in which \<open>validate_status\<close> and \<open>order_decide\<close> write a status.
\<close>

definition quotes_status :: "enum_format \<Rightarrow> string \<Rightarrow> OrderStatus \<Rightarrow> bool" where
  "quotes_status fmt msg st = sublist ([CHR 0x27] @ fmt_status fmt st @ [CHR 0x27]) msg"

section \<open>Order placement in \<open>mcp_run.py\<close>\<close>

text \<open>
  \<open>place_order\<close> is the one tool of the repository that creates an order from a caller's
  input. It writes to its own store, the list \<open>business_db[...]["orders"]\<close>, and reads the
  fixed menu. Its exceptions are values: the \<open>McpError\<close> it raises itself, and the
  \<open>ValueError\<close> of \<open>float\<close> and the \<open>IndexError\<close> of \<open>parts[1]\<close>, which it does not catch.
\<close>

datatype error_code = INVALID_PARAMS | INTERNAL_ERROR
















section \<open>The tools against the transition table\<close>

lemmas tool_defs = order_decide_def order_ready_def delivery_assign_def order_delivered_def
        payment_request_def order_paid_def get_order_def validate_status_def Let_def

lemma fst_call_tool:
  "fst (call_tool fmt t c s) =
     (case map_of s (target c) of None \<Rightarrow> s
      | Some ord \<Rightarrow> if precondition c ord then AList.update (target c) (effect t c ord) s else s)"
  by (cases c) (auto simp: tool_defs split: option.splits)

lemma ok_call_tool:
  "ok (snd (call_tool fmt t c s)) =
     (case map_of s (target c) of None \<Rightarrow> False | Some ord \<Rightarrow> precondition c ord)"
  by (cases c) (auto simp: tool_defs ok_def failure_def split: option.splits)

lemma error_call_tool:
  "(error_of (snd (call_tool fmt t c s)) = None) = ok (snd (call_tool fmt t c s))"
  by (cases c) (auto simp: tool_defs ok_def failure_def error_of_def split: option.splits)

lemma map_of_call_tool:
  "map_of (fst (call_tool fmt t c s)) k =
     (if k = target c
      then map_option (\<lambda>ord. if precondition c ord then effect t c ord else ord) (map_of s k)
      else map_of s k)"
  by (simp add: fst_call_tool update_conv' split: option.splits)

lemma effect_inv: "order_inv ord \<Longrightarrow> precondition c ord \<Longrightarrow> order_inv (effect t c ord)"
  by (cases c) (auto simp: order_inv_def)

lemma store_inv_update:
  "store_inv s \<Longrightarrow> order_inv ord \<Longrightarrow> store_inv (AList.update k ord s)"
  unfolding store_inv_def by (induction s) auto

lemma store_inv_lookup: "store_inv s \<Longrightarrow> map_of s k = Some ord \<Longrightarrow> order_inv ord"
  unfolding store_inv_def by (auto dest!: map_of_SomeD)

lemma store_inv_call: "store_inv s \<Longrightarrow> store_inv (fst (call_tool fmt t c s))"
proof (cases "map_of s (target c)")
  case None
  then show "store_inv s \<Longrightarrow> ?thesis" by (simp add: fst_call_tool)
next
  case (Some ord)
  assume inv: "store_inv s"
  then have "order_inv ord" using Some by (rule store_inv_lookup)
  then show ?thesis
    using inv Some by (simp add: fst_call_tool store_inv_update effect_inv)
qed

lemma store_inv_new: "store_inv s \<Longrightarrow> store_inv (fst (new_order oid t vid cn cp addr its s))"
  by (auto simp: new_order_def order_inv_def intro!: store_inv_update)

lemma reachable_store_inv: "reachable s \<Longrightarrow> store_inv s"
proof (induction rule: reachable.induct)
  case reachable_empty
  show ?case by (simp add: store_inv_def)
next
  case (reachable_new orders oid t vid cname cphone addr its)
  then show ?case by (simp only: store_inv_new)
next
  case (reachable_call orders fmt t c)
  then show ?case by (simp only: store_inv_call)
qed

lemma reachable_order_inv: "reachable s \<Longrightarrow> map_of s k = Some ord \<Longrightarrow> order_inv ord"
  by (blast intro: store_inv_lookup reachable_store_inv)

lemma distinct_call: "distinct (map fst s) \<Longrightarrow> distinct (map fst (fst (call_tool fmt t c s)))"
  by (auto simp: fst_call_tool distinct_update split: option.splits)

lemma reachable_distinct: "reachable s \<Longrightarrow> distinct (map fst s)"
  by (induction rule: reachable.induct) (simp_all add: distinct_call new_order_def distinct_update)

lemma reachable_seeded: "reachable (seeded t1 t2 oid1 oid2)"
  unfolding seeded_def by (intro reachable.intros)

lemma reachable_run: "reachable s \<Longrightarrow> reachable (run_calls fmt cs s)"
  by (induction fmt cs s rule: run_calls.induct) (simp_all add: reachable_call)

lemma lookup_after_call:
  assumes "map_of s oid = Some ord"
  shows "map_of (fst (call_tool fmt t c s)) oid =
           Some (if target c = oid \<and> precondition c ord then effect t c ord else ord)"
proof (cases "target c = oid")
  case True
  with assms have "map_of s (target c) = Some ord" by simp
  with True show ?thesis by (simp add: fst_call_tool update_conv')
next
  case False
  with assms show ?thesis by (simp add: fst_call_tool update_conv' split: option.splits)
qed

lemma lookup_after_run:
  "map_of s oid = Some ord \<Longrightarrow>
   map_of (run_calls fmt cs s) oid = Some (apply_calls oid cs ord)"
proof (induction cs arbitrary: s ord)
  case Nil
  then show ?case by simp
next
  case (Cons a cs)
  obtain t c where a: "a = (t, c)" by (cases a)
  from Cons.prems have "map_of (fst (call_tool fmt t c s)) oid =
      Some (if target c = oid \<and> precondition c ord then effect t c ord else ord)"
    by (rule lookup_after_call)
  then show ?case unfolding a by (simp only: run_calls.simps apply_calls.simps Cons.IH)
qed

lemma seeded_eq:
  "oid1 \<noteq> oid2 \<Longrightarrow> seeded t1 t2 oid1 oid2 = [(oid1, seed1 t1 oid1), (oid2, seed2 t2 oid2)]"
  by (simp add: seeded_def new_order_def seed1_def seed2_def)

lemma status_effect_edge:
  "precondition c ord \<Longrightarrow> status (effect t c ord) \<noteq> status ord \<Longrightarrow>
     edge ord (status (effect t c ord))"
  by (cases c) (auto simp: edge_def)

lemma terminal_no_precondition:
  "order_inv ord \<Longrightarrow> status ord = REJECTED \<or> status ord = PAID \<Longrightarrow> \<not> precondition c ord"
  by (cases c; cases "payment_status ord") (simp_all add: order_inv_def)

lemma failed_call_unchanged:
  "\<not> ok (snd (call_tool fmt t c s)) \<Longrightarrow> fst (call_tool fmt t c s) = s"
  by (simp add: ok_call_tool fst_call_tool split: option.splits)

lemma order_paid_found:
  "map_of orders oid = Some ord \<Longrightarrow>
   order_paid t oid orders =
     (if payment_status ord \<noteq> P_REQUESTED
      then (orders, failure ''Order not found or payment not requested.'')
      else (AList.update oid (ord\<lparr>payment_status := P_PAID, status := PAID, paid_at := Some t\<rparr>)
              orders,
            [(''ok'', PyBool True), (''status'', PyStatus PAID)]))"
  by (simp add: order_paid_def get_order_def Let_def)

lemma payment_request_found:
  "map_of orders oid = Some ord \<Longrightarrow>
   payment_request oid amount currency orders =
     (if status ord \<noteq> ASSIGNED \<and> status ord \<noteq> DELIVERED
      then (orders, failure ''Can only request payment for assigned or delivered orders.'')
      else (AList.update oid (ord\<lparr>payment_status := P_REQUESTED\<rparr>) orders,
            [(''ok'', PyBool True),
             (''vendor_message'', PyStr (''Payment request sent for order '' @ oid @ ''.''))]))"
  by (simp add: payment_request_def get_order_def Let_def)

lemma ok_failure: "\<not> ok (failure e)"
  by (simp add: ok_def failure_def)

lemma ok_success: "ok ((''ok'', PyBool True) # r)"
  by (simp add: ok_def)

lemma stamp_effect:
  "precondition c ord \<Longrightarrow>
   stamp_of k (effect t c ord) = (if fires k c then Some t else stamp_of k ord)"
  by (cases c; cases k) simp_all

lemma stamp_unset_before:
  "order_inv ord \<Longrightarrow> precondition c ord \<Longrightarrow> fires k c \<Longrightarrow> stamp_of k ord = None"
  by (cases c; cases k) (auto simp: order_inv_def)

lemma stamp_kept_call:
  assumes "order_inv ord" and "stamp_of k ord = Some x"
  shows "stamp_of k (if target c = oid \<and> precondition c ord then effect t c ord else ord) = Some x"
  using assms stamp_unset_before[of ord c k] by (auto simp: stamp_effect)

lemma order_inv_step:
  "order_inv ord \<Longrightarrow>
   order_inv (if target c = oid \<and> precondition c ord then effect t c ord else ord)"
  by (simp add: effect_inv)

lemma stamp_kept_run:
  "order_inv ord \<Longrightarrow> stamp_of k ord = Some x \<Longrightarrow> stamp_of k (apply_calls oid cs ord) = Some x"
proof (induction cs arbitrary: ord)
  case Nil
  then show ?case by simp
next
  case (Cons a cs)
  obtain t c where a: "a = (t, c)" by (cases a)
  let ?ord1 = "if target c = oid \<and> precondition c ord then effect t c ord else ord"
  have "order_inv ?ord1" using Cons.prems(1) by (rule order_inv_step)
  moreover have "stamp_of k ?ord1 = Some x" using Cons.prems by (rule stamp_kept_call)
  ultimately have "stamp_of k (apply_calls oid cs ?ord1) = Some x" by (rule Cons.IH)
  then show ?case unfolding a by (simp only: apply_calls.simps)
qed

lemma seeds_eq: "seeds = [(''a'', seed1 1 ''a''), (''b'', seed2 2 ''b'')]"
  unfolding seeds_def by (rule seeded_eq) simp

lemma reachable_seeds: "reachable seeds"
  unfolding seeds_def by (rule reachable_seeded)

lemma seeds_a: "map_of seeds ''a'' = Some (seed1 1 ''a'')"
  by (simp add: seeds_eq)

lemma assigned_order:
  "apply_calls ''a'' to_assigned (seed1 1 ''a'') =
     (seed1 1 ''a'')\<lparr>status := ASSIGNED, accepted_at := Some 3, ready_at := Some 4,
       assigned_at := Some 5,
       delivery_agent := Some \<lparr>agent_id = ''agent_1'', agent_name = ''Sam'',
                                agent_phone = ''919991112223''\<rparr>\<rparr>"
  by (simp add: to_assigned_def seed1_def delivery_agents_def)

lemma requested_order:
  "apply_calls ''a'' to_requested (seed1 1 ''a'') =
     (seed1 1 ''a'')\<lparr>status := ASSIGNED, accepted_at := Some 3, ready_at := Some 4,
       assigned_at := Some 5,
       delivery_agent := Some \<lparr>agent_id = ''agent_1'', agent_name = ''Sam'',
                                agent_phone = ''919991112223''\<rparr>,
       payment_status := P_REQUESTED\<rparr>"
  by (simp add: to_requested_def to_assigned_def seed1_def delivery_agents_def)

lemma assigned_lookup:
  "map_of (run_calls ByValue to_assigned seeds) ''a'' =
     Some (apply_calls ''a'' to_assigned (seed1 1 ''a''))"
  using seeds_a by (rule lookup_after_run)

lemma requested_lookup:
  "map_of (run_calls ByValue to_requested seeds) ''a'' =
     Some (apply_calls ''a'' to_requested (seed1 1 ''a''))"
  using seeds_a by (rule lookup_after_run)

lemma sort_created_desc_mset: "mset (sort_created_desc xs) = mset xs"
  by (simp add: sort_created_desc_def)

lemma sort_created_desc_sorted:
  "sorted_wrt (\<lambda>x y. created_at y \<le> created_at x) (sort_created_desc xs)"
proof -
  have "sorted (map created_at (sort_key created_at (rev xs)))" by (rule sorted_sort_key)
  then have "sorted_wrt (\<lambda>x y. created_at x \<le> created_at y) (sort_key created_at (rev xs))"
    by (simp add: sorted_map)
  then show ?thesis by (simp add: sort_created_desc_def sorted_wrt_rev)
qed

lemma sort_created_desc_stable:
  "filter (\<lambda>x. created_at x = k) (sort_created_desc xs) = filter (\<lambda>x. created_at x = k) xs"
proof -
  have "filter (\<lambda>x. created_at x = k) (sort_created_desc xs) =
        rev (filter (\<lambda>x. created_at x = k) (sort_key created_at (rev xs)))"
    by (simp add: sort_created_desc_def rev_filter)
  also have "\<dots> = rev (filter (\<lambda>x. created_at x = k) (rev xs))"
    by (simp only: sort_key_stable)
  also have "\<dots> = filter (\<lambda>x. created_at x = k) xs"
    by (simp add: rev_filter)
  finally show ?thesis .
qed

lemma sort_created_desc_filter:
  "filter Q (sort_created_desc xs) = sort_created_desc (filter Q xs)"
  by (simp add: sort_created_desc_def rev_filter[symmetric] filter_sort)

lemma orders_list_result:
  "orders_list vid flt orders =
     (orders,
      \<lparr>orders_of = sort_created_desc
          (filter (\<lambda>x. vendor_id x = vid \<and> (truthy flt \<longrightarrow> Some (status_value (status x)) = flt))
             (map snd orders)),
       count = length (filter (\<lambda>x. vendor_id x = vid \<and>
                  (truthy flt \<longrightarrow> Some (status_value (status x)) = flt)) (map snd orders))\<rparr>)"
proof -
  have len: "length (sort_created_desc ys) = length ys" for ys
    by (simp add: sort_created_desc_def)
  have conj: "filter (\<lambda>x. Some (status_value (status x)) = flt)
                (filter (\<lambda>x. vendor_id x = vid) (map snd orders)) =
              filter (\<lambda>x. vendor_id x = vid \<and> Some (status_value (status x)) = flt)
                (map snd orders)"
    by (simp add: conj_commute)
  show ?thesis
  proof (cases "truthy flt")
    case True
    then show ?thesis by (simp add: orders_list_def Let_def len conj)
  next
    case False
    then show ?thesis by (simp add: orders_list_def Let_def len)
  qed
qed

lemma seeds_listing:
  "orders_of (snd (orders_list ''vendor_1'' flt seeds)) =
     (if truthy flt \<and> flt \<noteq> Some ''pending'' then [] else [seed2 2 ''b'', seed1 1 ''a''])"
  by (auto simp: orders_list_result seeds_eq sort_created_desc_def seed1_def seed2_def)

lemma error_of_failure: "error_of (failure e) = Some e"
  by (simp add: error_of_def failure_def)

lemma order_decide_rejects:
  assumes "map_of orders oid = Some ord" and "status ord \<noteq> PENDING"
  shows "error_of (snd (order_decide fmt t oid accept orders)) =
           Some (''Order already '' @ [CHR 0x27] @ fmt_status fmt (status ord) @ [CHR 0x27] @ ''.'')"
  using assms by (simp add: order_decide_def get_order_def error_of_failure)

lemma payment_request_rejects:
  assumes "map_of orders oid = Some ord" and "status ord \<noteq> ASSIGNED" and "status ord \<noteq> DELIVERED"
  shows "error_of (snd (payment_request oid amount currency orders)) =
           Some ''Can only request payment for assigned or delivered orders.''"
  using assms by (simp add: payment_request_found error_of_failure)

lemma order_paid_rejects:
  assumes "map_of orders oid = Some ord" and "payment_status ord \<noteq> P_REQUESTED"
  shows "error_of (snd (order_paid t oid orders)) =
           Some ''Order not found or payment not requested.''"
  using assms by (simp add: order_paid_found error_of_failure)

lemma unknown_id_result:
  assumes "map_of orders (target c) = None"
  shows "call_tool fmt t c orders =
           (orders, failure (case c of OrderPaid oid \<Rightarrow> ''Order not found or payment not requested.''
                                     | _ \<Rightarrow> ''order_not_found''))"
  using assms by (cases c) (simp_all add: tool_defs)

lemma validate_status_not_order_not_found:
  "validate_status fmt ord expected \<noteq> Some ''order_not_found''"
  by (simp add: validate_status_def)

lemma known_id_error:
  assumes "map_of orders (target c) = Some ord" and "\<forall>oid. c \<noteq> OrderPaid oid"
  shows "error_of (snd (call_tool fmt t c orders)) \<noteq> Some ''order_not_found''"
proof (cases c)
  case (OrderDecide oid accept)
  then show ?thesis using assms(1)
    by (simp add: order_decide_def get_order_def error_of_def failure_def)
next
  case (OrderReady oid)
  then show ?thesis using assms(1) validate_status_not_order_not_found[of fmt ord ACCEPTED]
    by (cases "validate_status fmt ord ACCEPTED")
       (simp_all add: order_ready_def get_order_def Let_def error_of_def failure_def)
next
  case (DeliveryAssign oid aid)
  then show ?thesis using assms(1) validate_status_not_order_not_found[of fmt ord READY]
    by (cases "validate_status fmt ord READY"; cases "map_of delivery_agents aid")
       (simp_all add: delivery_assign_def get_order_def Let_def error_of_def failure_def)
next
  case (OrderDelivered oid)
  then show ?thesis using assms(1) validate_status_not_order_not_found[of fmt ord ASSIGNED]
    by (cases "validate_status fmt ord ASSIGNED")
       (simp_all add: order_delivered_def get_order_def Let_def error_of_def failure_def)
next
  case (PaymentRequest oid amount currency)
  then show ?thesis using assms(1)
    by (simp add: payment_request_found error_of_def failure_def)
next
  case (OrderPaid oid)
  then show ?thesis using assms(2) by simp
qed

lemma stamp_origin:
  "stamp_of k (apply_calls oid cs ord) = Some x \<Longrightarrow>
   stamp_of k ord = Some x \<or> (\<exists>c. (x, c) \<in> set cs \<and> target c = oid \<and> fires k c)"
proof (induction cs arbitrary: ord)
  case Nil
  then show ?case by simp
next
  case (Cons a cs)
  obtain t c where a: "a = (t, c)" by (cases a)
  let ?ord1 = "if target c = oid \<and> precondition c ord then effect t c ord else ord"
  from Cons.prems have "stamp_of k (apply_calls oid cs ?ord1) = Some x"
    unfolding a by (simp only: apply_calls.simps)
  then have "stamp_of k ?ord1 = Some x \<or> (\<exists>c. (x, c) \<in> set cs \<and> target c = oid \<and> fires k c)"
    by (rule Cons.IH)
  then show ?case
  proof
    assume s1: "stamp_of k ?ord1 = Some x"
    show ?thesis
    proof (cases "target c = oid \<and> precondition c ord \<and> fires k c")
      case True
      then have "x = t" using s1 by (simp add: stamp_effect)
      then show ?thesis using True a by auto
    next
      case False
      then have "stamp_of k ord = Some x" using s1 by (auto simp: stamp_effect split: if_splits)
      then show ?thesis by simp
    qed
  next
    assume "\<exists>c. (x, c) \<in> set cs \<and> target c = oid \<and> fires k c"
    then show ?thesis by auto
  qed
qed

lemma new_order_lookup:
  "map_of (fst (new_order oid t vid cname cphone addr its orders)) oid =
     Some \<lparr>order_id = oid, vendor_id = vid,
           customer = \<lparr>customer_name = cname, customer_phone = cphone\<rparr>,
           address = addr, items = its, status = PENDING, created_at = t,
           accepted_at = None, ready_at = None, assigned_at = None, delivered_at = None,
           paid_at = None, delivery_agent = None, payment_requested = False,
           payment_status = P_UNREQUESTED\<rparr>"
  by (simp add: new_order_def update_conv')

lemma new_order_stamps:
  "\<exists>ord0. map_of (fst (new_order oid t vid cname cphone addr its orders)) oid = Some ord0 \<and>
          (\<forall>k. stamp_of k ord0 = None)"
proof -
  have "stamp_of k \<lparr>order_id = oid, vendor_id = vid,
           customer = \<lparr>customer_name = cname, customer_phone = cphone\<rparr>,
           address = addr, items = its, status = PENDING, created_at = t,
           accepted_at = None, ready_at = None, assigned_at = None, delivered_at = None,
           paid_at = None, delivery_agent = None, payment_requested = False,
           payment_status = P_UNREQUESTED\<rparr> = None" for k
    by (cases k) simp_all
  then show ?thesis using new_order_lookup by blast
qed

lemma scenario_lookup:
  "map_of (run_calls ByValue cs seeds) ''a'' = Some (apply_calls ''a'' cs (seed1 1 ''a''))"
  using seeds_a by (rule lookup_after_run)

lemma scenario_reachable: "reachable (run_calls ByValue cs seeds)"
  using reachable_seeds by (rule reachable_run)

lemma accepted_order:
  "apply_calls ''a'' to_accepted (seed1 1 ''a'') =
     (seed1 1 ''a'')\<lparr>status := ACCEPTED, accepted_at := Some 3\<rparr>"
  by (simp add: to_accepted_def seed1_def)

lemma ready_order:
  "apply_calls ''a'' to_ready (seed1 1 ''a'') =
     (seed1 1 ''a'')\<lparr>status := READY, accepted_at := Some 3, ready_at := Some 4\<rparr>"
  by (simp add: to_ready_def to_accepted_def seed1_def)

lemma delivered_requested_order:
  "apply_calls ''a'' to_delivered_requested (seed1 1 ''a'') =
     (seed1 1 ''a'')\<lparr>status := DELIVERED, accepted_at := Some 3, ready_at := Some 4,
       assigned_at := Some 5, delivered_at := Some 6,
       delivery_agent := Some \<lparr>agent_id = ''agent_1'', agent_name = ''Sam'',
                                agent_phone = ''919991112223''\<rparr>,
       payment_status := P_REQUESTED\<rparr>"
  by (simp add: to_delivered_requested_def to_assigned_def seed1_def delivery_agents_def)

lemma paid_order:
  "apply_calls ''a'' to_paid (seed1 1 ''a'') =
     (seed1 1 ''a'')\<lparr>status := PAID, accepted_at := Some 3, ready_at := Some 4,
       assigned_at := Some 5, delivered_at := Some 6, paid_at := Some 8,
       delivery_agent := Some \<lparr>agent_id = ''agent_1'', agent_name = ''Sam'',
                                agent_phone = ''919991112223''\<rparr>,
       payment_status := P_PAID\<rparr>"
  by (simp add: to_paid_def to_delivered_requested_def to_assigned_def seed1_def
        delivery_agents_def)

lemma fires_set:
  assumes "reachable orders \<and> map_of orders oid = Some ord"
    and "target c = oid" and "fires k c" and "precondition c ord"
    and w: "\<exists>ord'. map_of (fst (call_tool fmt t c orders)) oid = Some ord' \<and>
         (if target c = oid \<and> fires k c \<and> ok (snd (call_tool fmt t c orders))
          then stamp_of k ord = None \<and> stamp_of k ord' = Some t
          else stamp_of k ord' = stamp_of k ord)"
  shows "stamp_of k ord = None \<and>
         (\<exists>ord'. map_of (fst (call_tool fmt t c orders)) oid = Some ord' \<and> stamp_of k ord' = Some t)"
proof -
  have "ok (snd (call_tool fmt t c orders))"
    using assms(1,2,4) by (simp add: ok_call_tool)
  with assms(2,3) w show ?thesis by auto
qed

lemma quotes_fmt_status:
  "quotes_status fmt (pre @ [CHR 0x27] @ fmt_status fmt st @ [CHR 0x27] @ post) st"
proof -
  have "sublist ([CHR 0x27] @ fmt_status fmt st @ [CHR 0x27])
          (pre @ ([CHR 0x27] @ fmt_status fmt st @ [CHR 0x27]) @ post)"
    by (rule sublist_appendI)
  then show ?thesis by (simp add: quotes_status_def)
qed

lemma order_ready_text:
  assumes "map_of orders oid = Some ord" and "status ord \<noteq> ACCEPTED"
  shows "error_of (snd (order_ready fmt t oid orders)) =
           Some (''Order must be '' @ [CHR 0x27] @ fmt_status fmt ACCEPTED @ [CHR 0x27]
                 @ '', but is '' @ [CHR 0x27] @ fmt_status fmt (status ord) @ [CHR 0x27] @ ''.'')"
  using assms
  by (simp add: order_ready_def get_order_def validate_status_def Let_def error_of_failure)

lemma delivery_assign_text:
  assumes "map_of orders oid = Some ord" and "status ord \<noteq> READY"
  shows "error_of (snd (delivery_assign fmt t oid aid orders)) =
           Some (''Order must be '' @ [CHR 0x27] @ fmt_status fmt READY @ [CHR 0x27]
                 @ '', but is '' @ [CHR 0x27] @ fmt_status fmt (status ord) @ [CHR 0x27] @ ''.'')"
  using assms
  by (simp add: delivery_assign_def get_order_def validate_status_def Let_def error_of_failure)

lemma order_delivered_text:
  assumes "map_of orders oid = Some ord" and "status ord \<noteq> ASSIGNED"
  shows "error_of (snd (order_delivered fmt t oid orders)) =
           Some (''Order must be '' @ [CHR 0x27] @ fmt_status fmt ASSIGNED @ [CHR 0x27]
                 @ '', but is '' @ [CHR 0x27] @ fmt_status fmt (status ord) @ [CHR 0x27] @ ''.'')"
  using assms
  by (simp add: order_delivered_def get_order_def validate_status_def Let_def error_of_failure)

lemma already_not_pending:
  "st \<noteq> PENDING \<Longrightarrow>
   \<not> names_status (''Order already '' @ [CHR 0x27] @ fmt_status fmt st @ [CHR 0x27] @ ''.'') PENDING"
  by (cases fmt; cases st) (simp_all add: names_status_def sublist_code)

lemma can_only_not_actual:
  "st \<noteq> ASSIGNED \<Longrightarrow> st \<noteq> DELIVERED \<Longrightarrow>
   \<not> names_status ''Can only request payment for assigned or delivered orders.'' st"
  by (cases st) (simp_all add: names_status_def sublist_code)

lemma not_requested_not_actual:
  "ps \<noteq> P_REQUESTED \<Longrightarrow>
   \<not> names_payment ''Order not found or payment not requested.'' ps"
  by (cases ps) (simp_all add: names_payment_def sublist_code)
















section \<open>The claims\<close>

text \<open>
  Claim C1. For every order of a reachable store and every lifecycle call, the status of
  the order changes only along an edge of the transition graph (pending to accepted or
  rejected, accepted to ready, ready to assigned, assigned to delivered, and to paid when
  payment was requested); an order whose status is rejected or paid is left exactly as it
  is by every call; and a call that targets the order while its precondition fails (for
  \<open>delivery_assign\<close> also when the agent is unknown) returns an error and leaves the
  whole store unchanged.
\<close>

theorem status_follows_transition_graph:
  assumes "reachable orders" and "map_of orders oid = Some ord"
  shows "(\<exists>ord'. map_of (fst (call_tool fmt t c orders)) oid = Some ord' \<and>
            (status ord' \<noteq> status ord \<longrightarrow> edge ord (status ord')) \<and>
            (status ord = REJECTED \<or> status ord = PAID \<longrightarrow> ord' = ord)) \<and>
         (target c = oid \<and> \<not> precondition c ord \<longrightarrow>
            \<not> ok (snd (call_tool fmt t c orders)) \<and>
            error_of (snd (call_tool fmt t c orders)) \<noteq> None \<and>
            fst (call_tool fmt t c orders) = orders)"
proof -
  have inv: "order_inv ord" using assms by (rule reachable_order_inv)
  let ?ord' = "if target c = oid \<and> precondition c ord then effect t c ord else ord"
  have look: "map_of (fst (call_tool fmt t c orders)) oid = Some ?ord'"
    using assms(2) by (rule lookup_after_call)
  have e: "status ?ord' \<noteq> status ord \<longrightarrow> edge ord (status ?ord')"
    by (simp add: status_effect_edge)
  have fin: "status ord = REJECTED \<or> status ord = PAID \<longrightarrow> ?ord' = ord"
    using terminal_no_precondition[OF inv] by auto
  have fail: "target c = oid \<and> \<not> precondition c ord \<longrightarrow>
            \<not> ok (snd (call_tool fmt t c orders)) \<and>
            error_of (snd (call_tool fmt t c orders)) \<noteq> None \<and>
            fst (call_tool fmt t c orders) = orders"
    using assms(2) by (auto simp: ok_call_tool error_call_tool fst_call_tool)
  from look e fin fail show ?thesis by blast
qed

theorem status_follows_transition_graph_witness:
  "reachable seeds \<and> map_of seeds ''a'' = Some (seed1 1 ''a'') \<and>
   (\<exists>ord'. map_of (fst (call_tool ByValue 3 (OrderDecide ''a'' True) seeds)) ''a'' = Some ord' \<and>
      status ord' = ACCEPTED \<and> edge (seed1 1 ''a'') (status ord')) \<and>
   \<not> ok (snd (call_tool ByValue 3 (OrderReady ''a'') seeds)) \<and>
   fst (call_tool ByValue 3 (OrderReady ''a'') seeds) = seeds"
proof -
  have st: "status (seed1 1 ''a'') = PENDING" by (simp add: seed1_def)
  have look: "map_of (fst (call_tool ByValue 3 (OrderDecide ''a'' True) seeds)) ''a'' =
      Some (effect 3 (OrderDecide ''a'' True) (seed1 1 ''a''))"
    using lookup_after_call[OF seeds_a, of ByValue 3 "OrderDecide ''a'' True"] st by simp
  have acc: "status (effect 3 (OrderDecide ''a'' True) (seed1 1 ''a'')) = ACCEPTED" by simp
  note a = status_follows_transition_graph[OF reachable_seeds seeds_a,
      of ByValue 3 "OrderDecide ''a'' True"]
  note b = status_follows_transition_graph[OF reachable_seeds seeds_a,
      of ByValue 3 "OrderReady ''a''"]
  have e: "edge (seed1 1 ''a'') ACCEPTED" using a look acc st by auto
  have f: "\<not> ok (snd (call_tool ByValue 3 (OrderReady ''a'') seeds)) \<and>
           fst (call_tool ByValue 3 (OrderReady ''a'') seeds) = seeds"
    using b st by simp
  show ?thesis using reachable_seeds seeds_a look acc e f by simp
qed




text \<open>
  Claim C3, as the code has it. For an order that is in the store, \<open>order_ready\<close>,
  \<open>delivery_assign\<close> and \<open>order_delivered\<close> called in the wrong status return the
  message \<open>Order must be '<expected>', but is '<actual>'.\<close>, which quotes both the expected
  and the actual status. \<open>order_decide\<close> returns \<open>Order already '<actual>'.\<close>, which
  quotes the actual status and never names the expected status pending. \<open>payment_request\<close>
  returns a fixed message that never names the actual status, and \<open>order_paid\<close> a fixed
  message that never names the actual payment status.
\<close>

theorem invalid_state_messages:
  assumes "map_of orders oid = Some ord"
  shows "(status ord \<noteq> ACCEPTED \<longrightarrow>
            error_of (snd (order_ready fmt t oid orders)) =
              Some (''Order must be '' @ [CHR 0x27] @ fmt_status fmt ACCEPTED @ [CHR 0x27]
                    @ '', but is '' @ [CHR 0x27] @ fmt_status fmt (status ord) @ [CHR 0x27]
                    @ ''.'')) \<and>
         (status ord \<noteq> READY \<longrightarrow>
            error_of (snd (delivery_assign fmt t oid aid orders)) =
              Some (''Order must be '' @ [CHR 0x27] @ fmt_status fmt READY @ [CHR 0x27]
                    @ '', but is '' @ [CHR 0x27] @ fmt_status fmt (status ord) @ [CHR 0x27]
                    @ ''.'')) \<and>
         (status ord \<noteq> ASSIGNED \<longrightarrow>
            error_of (snd (order_delivered fmt t oid orders)) =
              Some (''Order must be '' @ [CHR 0x27] @ fmt_status fmt ASSIGNED @ [CHR 0x27]
                    @ '', but is '' @ [CHR 0x27] @ fmt_status fmt (status ord) @ [CHR 0x27]
                    @ ''.'')) \<and>
         quotes_status fmt
           (''Order must be '' @ [CHR 0x27] @ fmt_status fmt expected @ [CHR 0x27]
            @ '', but is '' @ [CHR 0x27] @ fmt_status fmt (status ord) @ [CHR 0x27] @ ''.'')
           expected \<and>
         quotes_status fmt
           (''Order must be '' @ [CHR 0x27] @ fmt_status fmt expected @ [CHR 0x27]
            @ '', but is '' @ [CHR 0x27] @ fmt_status fmt (status ord) @ [CHR 0x27] @ ''.'')
           (status ord) \<and>
         (status ord \<noteq> PENDING \<longrightarrow>
            error_of (snd (order_decide fmt t oid accept orders)) =
              Some (''Order already '' @ [CHR 0x27] @ fmt_status fmt (status ord) @ [CHR 0x27]
                    @ ''.'') \<and>
            quotes_status fmt
              (''Order already '' @ [CHR 0x27] @ fmt_status fmt (status ord) @ [CHR 0x27] @ ''.'')
              (status ord) \<and>
            \<not> names_status
              (''Order already '' @ [CHR 0x27] @ fmt_status fmt (status ord) @ [CHR 0x27] @ ''.'')
              PENDING) \<and>
         (status ord \<noteq> ASSIGNED \<and> status ord \<noteq> DELIVERED \<longrightarrow>
            error_of (snd (payment_request oid amount currency orders)) =
              Some ''Can only request payment for assigned or delivered orders.'' \<and>
            \<not> names_status ''Can only request payment for assigned or delivered orders.''
              (status ord)) \<and>
         (payment_status ord \<noteq> P_REQUESTED \<longrightarrow>
            error_of (snd (order_paid t oid orders)) =
              Some ''Order not found or payment not requested.'' \<and>
            \<not> names_payment ''Order not found or payment not requested.'' (payment_status ord))"
proof -
  have q1: "quotes_status fmt
           (''Order must be '' @ [CHR 0x27] @ fmt_status fmt expected @ [CHR 0x27]
            @ '', but is '' @ [CHR 0x27] @ fmt_status fmt (status ord) @ [CHR 0x27] @ ''.'')
           expected"
    by (rule quotes_fmt_status)
  have q2: "quotes_status fmt
           (''Order must be '' @ [CHR 0x27] @ fmt_status fmt expected @ [CHR 0x27]
            @ '', but is '' @ [CHR 0x27] @ fmt_status fmt (status ord) @ [CHR 0x27] @ ''.'')
           (status ord)"
    using quotes_fmt_status[of fmt "''Order must be '' @ [CHR 0x27] @ fmt_status fmt expected
        @ [CHR 0x27] @ '', but is ''" "status ord" "''.''"]
    by simp
  have q3: "quotes_status fmt
              (''Order already '' @ [CHR 0x27] @ fmt_status fmt (status ord) @ [CHR 0x27] @ ''.'')
              (status ord)"
    by (rule quotes_fmt_status)
  show ?thesis
    using order_ready_text[OF assms] delivery_assign_text[OF assms] order_delivered_text[OF assms]
      order_decide_rejects[OF assms] payment_request_rejects[OF assms] order_paid_rejects[OF assms]
      already_not_pending[of "status ord" fmt] can_only_not_actual[of "status ord"]
      not_requested_not_actual[of "payment_status ord"] q1 q2 q3
    by blast
qed

theorem invalid_state_messages_witness:
  "map_of seeds ''a'' = Some (seed1 1 ''a'') \<and>
   status (seed1 1 ''a'') = PENDING \<and>
   payment_status (seed1 1 ''a'') = P_UNREQUESTED \<and>
   error_of (snd (order_ready ByValue 3 ''a'' seeds)) =
     Some (''Order must be '' @ [CHR 0x27] @ ''accepted'' @ [CHR 0x27] @ '', but is ''
           @ [CHR 0x27] @ ''pending'' @ [CHR 0x27] @ ''.'') \<and>
   error_of (snd (delivery_assign ByMember 3 ''a'' ''agent_1'' seeds)) =
     Some (''Order must be '' @ [CHR 0x27] @ ''OrderStatus.READY'' @ [CHR 0x27] @ '', but is ''
           @ [CHR 0x27] @ ''OrderStatus.PENDING'' @ [CHR 0x27] @ ''.'') \<and>
   error_of (snd (order_delivered ByValue 3 ''a'' seeds)) =
     Some (''Order must be '' @ [CHR 0x27] @ ''assigned'' @ [CHR 0x27] @ '', but is ''
           @ [CHR 0x27] @ ''pending'' @ [CHR 0x27] @ ''.'') \<and>
   error_of (snd (payment_request ''a'' None ''INR'' seeds)) =
     Some ''Can only request payment for assigned or delivered orders.'' \<and>
   error_of (snd (order_paid 3 ''a'' seeds)) = Some ''Order not found or payment not requested.'' \<and>
   map_of (run_calls ByValue to_accepted seeds) ''a'' =
     Some (apply_calls ''a'' to_accepted (seed1 1 ''a'')) \<and>
   status (apply_calls ''a'' to_accepted (seed1 1 ''a'')) = ACCEPTED \<and>
   error_of (snd (order_decide ByValue 4 ''a'' False (run_calls ByValue to_accepted seeds))) =
     Some (''Order already '' @ [CHR 0x27] @ ''accepted'' @ [CHR 0x27] @ ''.'')"
proof -
  have st: "status (seed1 1 ''a'') = PENDING" and ps: "payment_status (seed1 1 ''a'') = P_UNREQUESTED"
    by (simp_all add: seed1_def)
  have st1: "status (apply_calls ''a'' to_accepted (seed1 1 ''a'')) = ACCEPTED"
    by (simp add: accepted_order)
  note a = invalid_state_messages[OF seeds_a, where fmt = ByValue and t = 3 and aid = "''agent_1''"
      and accept = True and amount = None and currency = "''INR''" and expected = ACCEPTED]
  note b = invalid_state_messages[OF seeds_a, where fmt = ByMember and t = 3 and aid = "''agent_1''"
      and accept = True and amount = None and currency = "''INR''" and expected = READY]
  note c = invalid_state_messages[OF scenario_lookup, where cs1 = to_accepted and fmt = ByValue
      and t = 4 and aid = "''agent_1''" and accept = False and amount = None
      and currency = "''INR''" and expected = PENDING]
  have r: "error_of (snd (order_ready ByValue 3 ''a'' seeds)) =
     Some (''Order must be '' @ [CHR 0x27] @ ''accepted'' @ [CHR 0x27] @ '', but is ''
           @ [CHR 0x27] @ ''pending'' @ [CHR 0x27] @ ''.'')"
    using a st by simp
  have g: "error_of (snd (delivery_assign ByMember 3 ''a'' ''agent_1'' seeds)) =
     Some (''Order must be '' @ [CHR 0x27] @ ''OrderStatus.READY'' @ [CHR 0x27] @ '', but is ''
           @ [CHR 0x27] @ ''OrderStatus.PENDING'' @ [CHR 0x27] @ ''.'')"
    using b st by simp
  have d: "error_of (snd (order_delivered ByValue 3 ''a'' seeds)) =
     Some (''Order must be '' @ [CHR 0x27] @ ''assigned'' @ [CHR 0x27] @ '', but is ''
           @ [CHR 0x27] @ ''pending'' @ [CHR 0x27] @ ''.'')"
    using a st by simp
  have p: "error_of (snd (payment_request ''a'' None ''INR'' seeds)) =
     Some ''Can only request payment for assigned or delivered orders.''"
    using a st by simp
  have o: "error_of (snd (order_paid 3 ''a'' seeds)) = Some ''Order not found or payment not requested.''"
    using a ps by simp
  have e: "error_of (snd (order_decide ByValue 4 ''a'' False (run_calls ByValue to_accepted seeds))) =
     Some (''Order already '' @ [CHR 0x27] @ ''accepted'' @ [CHR 0x27] @ ''.'')"
    using c st1 by simp
  from seeds_a st ps r g d p o scenario_lookup[of to_accepted] st1 e show ?thesis by blast
qed

text \<open>
  The claim as stated (every such message names both the expected and the actual state)
  fails on the first seed order: the message of \<open>payment_request\<close> does not name its
  status pending, the message of \<open>order_paid\<close> does not name its payment status
  unrequested, and after the order was accepted the message of a second \<open>order_decide\<close>
  does not name the expected status pending, in either rendering of the status.
\<close>

theorem invalid_state_messages_counterexample:
  "map_of seeds ''a'' = Some (seed1 1 ''a'') \<and>
   status (seed1 1 ''a'') = PENDING \<and>
   payment_status (seed1 1 ''a'') = P_UNREQUESTED \<and>
   error_of (snd (payment_request ''a'' None ''INR'' seeds)) =
     Some ''Can only request payment for assigned or delivered orders.'' \<and>
   \<not> names_status ''Can only request payment for assigned or delivered orders.'' PENDING \<and>
   error_of (snd (order_paid 3 ''a'' seeds)) = Some ''Order not found or payment not requested.'' \<and>
   \<not> names_payment ''Order not found or payment not requested.'' P_UNREQUESTED \<and>
   error_of (snd (order_decide ByValue 4 ''a'' True (fst (order_decide ByValue 3 ''a'' True seeds))))
     = Some (''Order already '' @ [CHR 0x27] @ ''accepted'' @ [CHR 0x27] @ ''.'') \<and>
   \<not> names_status (''Order already '' @ [CHR 0x27] @ ''accepted'' @ [CHR 0x27] @ ''.'') PENDING \<and>
   error_of (snd (order_decide ByMember 4 ''a'' True (fst (order_decide ByMember 3 ''a'' True seeds))))
     = Some (''Order already '' @ [CHR 0x27] @ ''OrderStatus.ACCEPTED'' @ [CHR 0x27] @ ''.'') \<and>
   \<not> names_status (''Order already '' @ [CHR 0x27] @ ''OrderStatus.ACCEPTED'' @ [CHR 0x27] @ ''.'')
       PENDING"
proof -
  have st: "status (seed1 1 ''a'') = PENDING" and ps: "payment_status (seed1 1 ''a'') = P_UNREQUESTED"
    by (simp_all add: seed1_def)
  have e1: "error_of (snd (payment_request ''a'' None ''INR'' seeds)) =
     Some ''Can only request payment for assigned or delivered orders.''"
    using payment_request_rejects[OF seeds_a] st by simp
  have n1: "\<not> names_status ''Can only request payment for assigned or delivered orders.'' PENDING"
    by (simp add: names_status_def sublist_code)
  have e2: "error_of (snd (order_paid 3 ''a'' seeds)) = Some ''Order not found or payment not requested.''"
    using order_paid_rejects[OF seeds_a] ps by simp
  have n2: "\<not> names_payment ''Order not found or payment not requested.'' P_UNREQUESTED"
    by (simp add: names_payment_def sublist_code)
  have s1: "map_of (fst (order_decide fmt 3 ''a'' True seeds)) ''a'' =
      Some (effect 3 (OrderDecide ''a'' True) (seed1 1 ''a''))" for fmt
    using lookup_after_call[OF seeds_a, of fmt 3 "OrderDecide ''a'' True"] st by simp
  have e3: "error_of (snd (order_decide ByValue 4 ''a'' True (fst (order_decide ByValue 3 ''a'' True seeds))))
     = Some (''Order already '' @ [CHR 0x27] @ ''accepted'' @ [CHR 0x27] @ ''.'')"
    using order_decide_rejects[OF s1[of ByValue], where fmt = ByValue and t = 4 and accept = True]
    by simp
  have n3: "\<not> names_status (''Order already '' @ [CHR 0x27] @ ''accepted'' @ [CHR 0x27] @ ''.'') PENDING"
    by (simp add: names_status_def sublist_code)
  have e4: "error_of (snd (order_decide ByMember 4 ''a'' True (fst (order_decide ByMember 3 ''a'' True seeds))))
     = Some (''Order already '' @ [CHR 0x27] @ ''OrderStatus.ACCEPTED'' @ [CHR 0x27] @ ''.'')"
    using order_decide_rejects[OF s1[of ByMember], where fmt = ByMember and t = 4 and accept = True]
    by simp
  have n4: "\<not> names_status (''Order already '' @ [CHR 0x27] @ ''OrderStatus.ACCEPTED'' @ [CHR 0x27]
       @ ''.'') PENDING"
    by (simp add: names_status_def sublist_code)
  show ?thesis using seeds_a st ps e1 n1 e2 n2 e3 n3 e4 n4 by blast
qed

text \<open>
  Claim C4, as the code has it. A lifecycle call with an identifier that is not in the
  store leaves the store unchanged and fails. For every tool but \<open>order_paid\<close> the error
  is \<open>order_not_found\<close>, which the tool never returns for an identifier that is in the
  store. \<open>order_paid\<close> returns one and the same result for an unknown identifier and for
  an order whose payment was not requested.
\<close>

theorem unknown_order_id:
  assumes "map_of orders (target c) = None"
  shows "fst (call_tool fmt t c orders) = orders \<and>
         \<not> ok (snd (call_tool fmt t c orders)) \<and>
         error_of (snd (call_tool fmt t c orders)) =
           Some (case c of OrderPaid oid \<Rightarrow> ''Order not found or payment not requested.''
                         | _ \<Rightarrow> ''order_not_found'') \<and>
         ((\<forall>oid. c \<noteq> OrderPaid oid) \<and> map_of orders' (target c) \<noteq> None \<longrightarrow>
            error_of (snd (call_tool fmt' t' c orders')) \<noteq> Some ''order_not_found'') \<and>
         (\<forall>oid ord. c = OrderPaid oid \<and> map_of orders' oid = Some ord \<and>
              payment_status ord \<noteq> P_REQUESTED \<longrightarrow>
            snd (call_tool fmt' t' c orders') = snd (call_tool fmt t c orders))"
proof -
  note r = unknown_id_result[OF assms, of fmt t]
  have a: "fst (call_tool fmt t c orders) = orders" by (simp only: r fst_conv)
  have b: "\<not> ok (snd (call_tool fmt t c orders))" by (simp only: r snd_conv ok_failure simp_thms)
  have e: "error_of (snd (call_tool fmt t c orders)) =
           Some (case c of OrderPaid oid \<Rightarrow> ''Order not found or payment not requested.''
                         | _ \<Rightarrow> ''order_not_found'')"
    by (simp only: r snd_conv error_of_failure)
  have d: "(\<forall>oid. c \<noteq> OrderPaid oid) \<and> map_of orders' (target c) \<noteq> None \<longrightarrow>
            error_of (snd (call_tool fmt' t' c orders')) \<noteq> Some ''order_not_found''"
    using known_id_error[of orders' c _ fmt' t'] by blast
  have p: "\<forall>oid ord. c = OrderPaid oid \<and> map_of orders' oid = Some ord \<and>
              payment_status ord \<noteq> P_REQUESTED \<longrightarrow>
            snd (call_tool fmt' t' c orders') = snd (call_tool fmt t c orders)"
  proof (intro allI impI)
    fix oid ord
    assume h: "c = OrderPaid oid \<and> map_of orders' oid = Some ord \<and>
              payment_status ord \<noteq> P_REQUESTED"
    then have "snd (order_paid t' oid orders') = failure ''Order not found or payment not requested.''"
      by (simp add: order_paid_found)
    moreover have "snd (call_tool fmt t c orders) = failure ''Order not found or payment not requested.''"
      using h r by (simp del: call_tool.simps)
    ultimately show "snd (call_tool fmt' t' c orders') = snd (call_tool fmt t c orders)"
      using h by simp
  qed
  from a b e d p show ?thesis by blast
qed

theorem unknown_order_id_witness:
  "map_of seeds (target (OrderReady ''zz'')) = None \<and>
   fst (call_tool ByValue 3 (OrderReady ''zz'') seeds) = seeds \<and>
   \<not> ok (snd (call_tool ByValue 3 (OrderReady ''zz'') seeds)) \<and>
   error_of (snd (call_tool ByValue 3 (OrderReady ''zz'') seeds)) = Some ''order_not_found'' \<and>
   map_of seeds (target (OrderReady ''a'')) \<noteq> None \<and>
   error_of (snd (call_tool ByValue 3 (OrderReady ''a'') seeds)) \<noteq> Some ''order_not_found''"
proof -
  have z: "map_of seeds (target (OrderReady ''zz'')) = None" by (simp add: seeds_eq)
  have a: "map_of seeds (target (OrderReady ''a'')) \<noteq> None" by (simp add: seeds_eq)
  note w1 = unknown_order_id[OF z, where fmt = ByValue and t = 3 and fmt' = ByValue and t' = 3
      and orders' = seeds]
  have w2: "error_of (snd (call_tool ByValue 3 (OrderReady ''a'') seeds)) \<noteq> Some ''order_not_found''"
    using seeds_a
    by (simp add: order_ready_def get_order_def validate_status_def seed1_def error_of_failure)
  show ?thesis using w1 z a w2 by (simp del: call_tool.simps)
qed

text \<open>
  The claim as stated (the error for an unknown identifier differs from the invalid-state
  error, also for \<open>order_paid\<close>) fails: \<open>order_paid\<close> returns the same result for an
  unknown identifier and for the first seed order, whose payment was not requested.
\<close>

theorem unknown_order_id_counterexample:
  "map_of seeds ''zz'' = None \<and> map_of seeds ''a'' = Some (seed1 1 ''a'') \<and>
   snd (order_paid 3 ''zz'' seeds) = snd (order_paid 3 ''a'' seeds) \<and>
   error_of (snd (order_paid 3 ''zz'' seeds)) = Some ''Order not found or payment not requested.''"
proof -
  have z: "map_of seeds ''zz'' = None" by (simp add: seeds_eq)
  have ps: "payment_status (seed1 1 ''a'') \<noteq> P_REQUESTED" by (simp add: seed1_def)
  have a: "snd (order_paid 3 ''a'' seeds) = failure ''Order not found or payment not requested.''"
    using ps by (simp add: order_paid_found[OF seeds_a])
  have b: "snd (order_paid 3 ''zz'' seeds) = failure ''Order not found or payment not requested.''"
    using z by (simp add: order_paid_def get_order_def)
  show ?thesis using z seeds_a a b by (simp add: error_of_failure)
qed

text \<open>
  Claim C5. In a reachable store the payment status of an order changes in two ways only:
  from unrequested to requested by \<open>payment_request\<close> on that order while its status is
  assigned or delivered, and from requested to paid by \<open>order_paid\<close> on that order. No
  other call changes it.
\<close>

theorem payment_status_changes:
  assumes "reachable orders" and "map_of orders oid = Some ord"
  shows "\<exists>ord'. map_of (fst (call_tool fmt t c orders)) oid = Some ord' \<and>
           (payment_status ord' \<noteq> payment_status ord \<longrightarrow>
              ((\<exists>amount currency. c = PaymentRequest oid amount currency) \<and>
               payment_status ord = P_UNREQUESTED \<and> payment_status ord' = P_REQUESTED \<and>
               (status ord = ASSIGNED \<or> status ord = DELIVERED)) \<or>
              (c = OrderPaid oid \<and>
               payment_status ord = P_REQUESTED \<and> payment_status ord' = P_PAID))"
proof -
  have inv: "order_inv ord" using assms by (rule reachable_order_inv)
  let ?ord' = "if target c = oid \<and> precondition c ord then effect t c ord else ord"
  have look: "map_of (fst (call_tool fmt t c orders)) oid = Some ?ord'"
    using assms(2) by (rule lookup_after_call)
  have "payment_status ?ord' \<noteq> payment_status ord \<longrightarrow>
              ((\<exists>amount currency. c = PaymentRequest oid amount currency) \<and>
               payment_status ord = P_UNREQUESTED \<and> payment_status ?ord' = P_REQUESTED \<and>
               (status ord = ASSIGNED \<or> status ord = DELIVERED)) \<or>
              (c = OrderPaid oid \<and>
               payment_status ord = P_REQUESTED \<and> payment_status ?ord' = P_PAID)"
    using inv by (cases c; cases "payment_status ord") (auto simp: order_inv_def)
  with look show ?thesis by blast
qed

theorem payment_status_changes_witness:
  "reachable (run_calls ByValue to_assigned seeds) \<and>
   map_of (run_calls ByValue to_assigned seeds) ''a'' =
     Some (apply_calls ''a'' to_assigned (seed1 1 ''a'')) \<and>
   payment_status (apply_calls ''a'' to_assigned (seed1 1 ''a'')) = P_UNREQUESTED \<and>
   status (apply_calls ''a'' to_assigned (seed1 1 ''a'')) = ASSIGNED \<and>
   (\<exists>ord'. map_of (fst (call_tool ByValue 6 (PaymentRequest ''a'' None ''INR'')
                      (run_calls ByValue to_assigned seeds))) ''a'' = Some ord' \<and>
      payment_status ord' = P_REQUESTED)"
proof -
  let ?s = "run_calls ByValue to_assigned seeds"
  let ?x = "apply_calls ''a'' to_assigned (seed1 1 ''a'')"
  have r: "reachable ?s" using reachable_seeds by (rule reachable_run)
  have ps: "payment_status ?x = P_UNREQUESTED"
    unfolding assigned_order by (simp add: seed1_def)
  have st: "status ?x = ASSIGNED" by (simp add: assigned_order)
  have look: "map_of (fst (call_tool ByValue 6 (PaymentRequest ''a'' None ''INR'') ?s)) ''a'' =
      Some (effect 6 (PaymentRequest ''a'' None ''INR'') ?x)"
    using lookup_after_call[OF assigned_lookup, of ByValue 6 "PaymentRequest ''a'' None ''INR''"] st
    by simp
  have req: "payment_status (effect 6 (PaymentRequest ''a'' None ''INR'') ?x) = P_REQUESTED"
    by simp
  note w = payment_status_changes[OF r assigned_lookup, of ByValue 6 "PaymentRequest ''a'' None ''INR''"]
  show ?thesis using w r assigned_lookup ps st look req by simp
qed

text \<open>
  Claim C6. For an order that is in the store, \<open>order_paid\<close> succeeds exactly when the
  payment status is requested; on success the order gets payment status paid, status paid
  and \<open>paid_at\<close> the current time, and nothing else changes; on failure the store is
  unchanged.
\<close>

theorem order_paid_iff_requested:
  assumes "map_of orders oid = Some ord"
  shows "(ok (snd (order_paid t oid orders)) = (payment_status ord = P_REQUESTED)) \<and>
         (payment_status ord = P_REQUESTED \<longrightarrow>
            fst (order_paid t oid orders) =
              AList.update oid (ord\<lparr>payment_status := P_PAID, status := PAID, paid_at := Some t\<rparr>)
                orders \<and>
            map_of (fst (order_paid t oid orders)) oid =
              Some (ord\<lparr>payment_status := P_PAID, status := PAID, paid_at := Some t\<rparr>)) \<and>
         (payment_status ord \<noteq> P_REQUESTED \<longrightarrow> fst (order_paid t oid orders) = orders)"
  by (simp add: order_paid_found[OF assms] ok_failure ok_success update_conv')

theorem order_paid_iff_requested_witness:
  "map_of (run_calls ByValue to_requested seeds) ''a'' =
     Some (apply_calls ''a'' to_requested (seed1 1 ''a'')) \<and>
   ok (snd (order_paid 7 ''a'' (run_calls ByValue to_requested seeds))) \<and>
   map_of (fst (order_paid 7 ''a'' (run_calls ByValue to_requested seeds))) ''a'' =
     Some ((apply_calls ''a'' to_requested (seed1 1 ''a''))
             \<lparr>payment_status := P_PAID, status := PAID, paid_at := Some 7\<rparr>) \<and>
   map_of seeds ''a'' = Some (seed1 1 ''a'') \<and>
   \<not> ok (snd (order_paid 7 ''a'' seeds)) \<and> fst (order_paid 7 ''a'' seeds) = seeds"
proof -
  have ps: "payment_status (apply_calls ''a'' to_requested (seed1 1 ''a'')) = P_REQUESTED"
    by (simp add: requested_order)
  have ps0: "payment_status (seed1 1 ''a'') \<noteq> P_REQUESTED" by (simp add: seed1_def)
  note a = order_paid_iff_requested[OF requested_lookup, of 7]
  note b = order_paid_iff_requested[OF seeds_a, of 7]
  show ?thesis using a b ps ps0 requested_lookup seeds_a by (simp add: update_conv')
qed

text \<open>
  Claim C7. Each of \<open>accepted_at\<close>, \<open>ready_at\<close>, \<open>assigned_at\<close>, \<open>delivered_at\<close> and
  \<open>paid_at\<close> is unset in the order \<open>new_order\<close> creates, whatever the store and the
  identifier; after any sequence of calls on the new order, a timestamp that is set holds
  the time of a call in the sequence that is its transition on that order. In a reachable
  store a call succeeds on an order exactly when its precondition holds; it sets the
  timestamp, to the current time, exactly when it is the corresponding transition on that
  order and succeeds, and the timestamp was unset until then; every other call leaves it
  as it is, so that once set it keeps its value through every later sequence of calls.
\<close>

theorem timestamps_set_once:
  "(\<exists>ord0. map_of (fst (new_order new_id new_t vid cname cphone addr its old_orders)) new_id = Some ord0 \<and>
      stamp_of k ord0 = None) \<and>
   (\<exists>ord1. map_of (run_calls fmt cs (fst (new_order new_id new_t vid cname cphone addr its old_orders)))
              new_id = Some ord1 \<and>
      (\<forall>x. stamp_of k ord1 = Some x \<longrightarrow>
         (\<exists>c. (x, c) \<in> set cs \<and> target c = new_id \<and> fires k c))) \<and>
   (reachable orders \<and> map_of orders oid = Some ord \<longrightarrow>
      (\<exists>ord'. map_of (fst (call_tool fmt t c orders)) oid = Some ord' \<and>
         (if target c = oid \<and> fires k c \<and> ok (snd (call_tool fmt t c orders))
          then stamp_of k ord = None \<and> stamp_of k ord' = Some t
          else stamp_of k ord' = stamp_of k ord)) \<and>
      (target c = oid \<longrightarrow> ok (snd (call_tool fmt t c orders)) = precondition c ord) \<and>
      (\<forall>x. stamp_of k ord = Some x \<longrightarrow>
         (\<exists>ord'. map_of (run_calls fmt cs orders) oid = Some ord' \<and> stamp_of k ord' = Some x)))"
proof -
  obtain ord0 where n0: "map_of (fst (new_order new_id new_t vid cname cphone addr its old_orders)) new_id = Some ord0"
    and n1: "\<forall>k. stamp_of k ord0 = None"
    using new_order_stamps by blast
  have new: "\<exists>ord0. map_of (fst (new_order new_id new_t vid cname cphone addr its old_orders)) new_id = Some ord0 \<and>
      stamp_of k ord0 = None"
    using n0 n1 by blast
  have lk: "map_of (run_calls fmt cs (fst (new_order new_id new_t vid cname cphone addr its old_orders)))
              new_id = Some (apply_calls new_id cs ord0)"
    using n0 by (rule lookup_after_run)
  have "\<forall>x. stamp_of k (apply_calls new_id cs ord0) = Some x \<longrightarrow>
         (\<exists>c. (x, c) \<in> set cs \<and> target c = new_id \<and> fires k c)"
    using stamp_origin[of k new_id cs ord0] n1 by auto
  with lk have origin: "\<exists>ord1. map_of (run_calls fmt cs (fst (new_order new_id new_t vid cname cphone addr its old_orders)))
              new_id = Some ord1 \<and>
      (\<forall>x. stamp_of k ord1 = Some x \<longrightarrow>
         (\<exists>c. (x, c) \<in> set cs \<and> target c = new_id \<and> fires k c))"
    by blast
  have rest: "(\<exists>ord'. map_of (fst (call_tool fmt t c orders)) oid = Some ord' \<and>
         (if target c = oid \<and> fires k c \<and> ok (snd (call_tool fmt t c orders))
          then stamp_of k ord = None \<and> stamp_of k ord' = Some t
          else stamp_of k ord' = stamp_of k ord)) \<and>
      (target c = oid \<longrightarrow> ok (snd (call_tool fmt t c orders)) = precondition c ord) \<and>
      (\<forall>x. stamp_of k ord = Some x \<longrightarrow>
         (\<exists>ord'. map_of (run_calls fmt cs orders) oid = Some ord' \<and> stamp_of k ord' = Some x))"
    if r: "reachable orders" and m: "map_of orders oid = Some ord"
  proof -
    have inv: "order_inv ord" using r m by (rule reachable_order_inv)
    let ?ord' = "if target c = oid \<and> precondition c ord then effect t c ord else ord"
    have look: "map_of (fst (call_tool fmt t c orders)) oid = Some ?ord'"
      using m by (rule lookup_after_call)
    have okc: "target c = oid \<Longrightarrow> ok (snd (call_tool fmt t c orders)) = precondition c ord"
      using m by (simp add: ok_call_tool)
    have step: "if target c = oid \<and> fires k c \<and> ok (snd (call_tool fmt t c orders))
             then stamp_of k ord = None \<and> stamp_of k ?ord' = Some t
             else stamp_of k ?ord' = stamp_of k ord"
    proof (cases "target c = oid \<and> precondition c ord")
      case True
      then show ?thesis using stamp_unset_before[OF inv, of c k]
        by (simp add: okc stamp_effect)
    next
      case False
      then show ?thesis using okc by auto
    qed
    have run: "\<forall>x. stamp_of k ord = Some x \<longrightarrow>
            (\<exists>ord'. map_of (run_calls fmt cs orders) oid = Some ord' \<and> stamp_of k ord' = Some x)"
      using lookup_after_run[OF m] stamp_kept_run[OF inv] by blast
    from look step okc run show ?thesis by blast
  qed
  from new origin rest show ?thesis by blast
qed

theorem timestamps_set_once_witness:
  "(\<exists>ord0. map_of (fst (new_order ''n'' 0 ''vendor_1'' ''Neha'' ''919876500001'' ''221B Baker St''
                        [\<lparr>sku = ''chai'', qty = 2\<rparr>] [])) ''n'' = Some ord0 \<and>
      stamp_of PaidAt ord0 = None) \<and>
   reachable (run_calls ByValue to_paid seeds) \<and>
   map_of (run_calls ByValue to_paid seeds) ''a'' = Some (apply_calls ''a'' to_paid (seed1 1 ''a'')) \<and>
   (stamp_of AcceptedAt (seed1 1 ''a'') = None \<and>
    (\<exists>ord'. map_of (fst (call_tool ByValue 3 (OrderDecide ''a'' True) seeds)) ''a'' = Some ord' \<and>
       stamp_of AcceptedAt ord' = Some 3)) \<and>
   (stamp_of ReadyAt (apply_calls ''a'' to_accepted (seed1 1 ''a'')) = None \<and>
    (\<exists>ord'. map_of (fst (call_tool ByValue 4 (OrderReady ''a'')
                       (run_calls ByValue to_accepted seeds))) ''a'' = Some ord' \<and>
       stamp_of ReadyAt ord' = Some 4)) \<and>
   (stamp_of AssignedAt (apply_calls ''a'' to_ready (seed1 1 ''a'')) = None \<and>
    (\<exists>ord'. map_of (fst (call_tool ByValue 5 (DeliveryAssign ''a'' ''agent_1'')
                       (run_calls ByValue to_ready seeds))) ''a'' = Some ord' \<and>
       stamp_of AssignedAt ord' = Some 5)) \<and>
   (stamp_of DeliveredAt (apply_calls ''a'' to_assigned (seed1 1 ''a'')) = None \<and>
    (\<exists>ord'. map_of (fst (call_tool ByValue 6 (OrderDelivered ''a'')
                       (run_calls ByValue to_assigned seeds))) ''a'' = Some ord' \<and>
       stamp_of DeliveredAt ord' = Some 6)) \<and>
   (stamp_of PaidAt (apply_calls ''a'' to_delivered_requested (seed1 1 ''a'')) = None \<and>
    (\<exists>ord'. map_of (fst (call_tool ByValue 8 (OrderPaid ''a'')
                       (run_calls ByValue to_delivered_requested seeds))) ''a'' = Some ord' \<and>
       stamp_of PaidAt ord' = Some 8)) \<and>
   (\<exists>ord'. map_of (run_calls ByValue retries (run_calls ByValue to_paid seeds)) ''a'' = Some ord' \<and>
      stamp_of AcceptedAt ord' = Some 3) \<and>
   (\<exists>ord'. map_of (run_calls ByValue retries (run_calls ByValue to_paid seeds)) ''a'' = Some ord' \<and>
      stamp_of ReadyAt ord' = Some 4) \<and>
   (\<exists>ord'. map_of (run_calls ByValue retries (run_calls ByValue to_paid seeds)) ''a'' = Some ord' \<and>
      stamp_of AssignedAt ord' = Some 5) \<and>
   (\<exists>ord'. map_of (run_calls ByValue retries (run_calls ByValue to_paid seeds)) ''a'' = Some ord' \<and>
      stamp_of DeliveredAt ord' = Some 6) \<and>
   (\<exists>ord'. map_of (run_calls ByValue retries (run_calls ByValue to_paid seeds)) ''a'' = Some ord' \<and>
      stamp_of PaidAt ord' = Some 8)"
proof -
  have h: "reachable (run_calls ByValue cs seeds) \<and>
           map_of (run_calls ByValue cs seeds) ''a'' = Some (apply_calls ''a'' cs (seed1 1 ''a''))"
    for cs using scenario_reachable scenario_lookup by simp
  have h0: "reachable seeds \<and> map_of seeds ''a'' = Some (seed1 1 ''a'')"
    using reachable_seeds seeds_a by simp
  have new: "\<exists>ord0. map_of (fst (new_order ''n'' 0 ''vendor_1'' ''Neha'' ''919876500001''
        ''221B Baker St'' [\<lparr>sku = ''chai'', qty = 2\<rparr>] [])) ''n'' = Some ord0 \<and>
      stamp_of PaidAt ord0 = None"
    using timestamps_set_once[where new_id = "''n''" and new_t = 0 and vid = "''vendor_1''"
        and cname = "''Neha''" and cphone = "''919876500001''" and addr = "''221B Baker St''"
        and its = "[\<lparr>sku = ''chai'', qty = 2\<rparr>]" and old_orders = "[]" and fmt = ByValue
        and oid = "''a''" and k = PaidAt and cs = "[]" and orders = seeds and ord = "seed1 1 ''a''"
        and c = "OrderPaid ''a''" and t = 0] by blast
  have s1: "stamp_of AcceptedAt (seed1 1 ''a'') = None \<and>
    (\<exists>ord'. map_of (fst (call_tool ByValue 3 (OrderDecide ''a'' True) seeds)) ''a'' = Some ord' \<and>
       stamp_of AcceptedAt ord' = Some 3)"
  proof (rule fires_set[OF h0])
    show "precondition (OrderDecide ''a'' True) (seed1 1 ''a'')" by (simp add: seed1_def)
    show "\<exists>ord'. map_of (fst (call_tool ByValue 3 (OrderDecide ''a'' True) seeds)) ''a'' = Some ord' \<and>
         (if target (OrderDecide ''a'' True) = ''a'' \<and> fires AcceptedAt (OrderDecide ''a'' True) \<and>
             ok (snd (call_tool ByValue 3 (OrderDecide ''a'' True) seeds))
          then stamp_of AcceptedAt (seed1 1 ''a'') = None \<and> stamp_of AcceptedAt ord' = Some 3
          else stamp_of AcceptedAt ord' = stamp_of AcceptedAt (seed1 1 ''a''))"
      using timestamps_set_once[where new_id = "''n''" and new_t = 0 and vid = "''vendor_1''"
        and cname = "''Neha''" and cphone = "''919876500001''" and addr = "''221B Baker St''"
        and its = "[\<lparr>sku = ''chai'', qty = 2\<rparr>]" and old_orders = "[]" and fmt = ByValue
        and oid = "''a''" and k = AcceptedAt and cs = "[]" and orders = seeds and ord = "seed1 1 ''a''"
        and c = "OrderDecide ''a'' True" and t = 3] h0 by blast
  qed simp_all
  have s2: "stamp_of ReadyAt (apply_calls ''a'' to_accepted (seed1 1 ''a'')) = None \<and>
    (\<exists>ord'. map_of (fst (call_tool ByValue 4 (OrderReady ''a'')
                       (run_calls ByValue to_accepted seeds))) ''a'' = Some ord' \<and>
       stamp_of ReadyAt ord' = Some 4)"
  proof (rule fires_set[OF h])
    show "precondition (OrderReady ''a'') (apply_calls ''a'' to_accepted (seed1 1 ''a''))"
      by (simp add: accepted_order)
    show "\<exists>ord'. map_of (fst (call_tool ByValue 4 (OrderReady ''a'')
                     (run_calls ByValue to_accepted seeds))) ''a'' = Some ord' \<and>
         (if target (OrderReady ''a'') = ''a'' \<and> fires ReadyAt (OrderReady ''a'') \<and>
             ok (snd (call_tool ByValue 4 (OrderReady ''a'') (run_calls ByValue to_accepted seeds)))
          then stamp_of ReadyAt (apply_calls ''a'' to_accepted (seed1 1 ''a'')) = None \<and>
               stamp_of ReadyAt ord' = Some 4
          else stamp_of ReadyAt ord' = stamp_of ReadyAt (apply_calls ''a'' to_accepted (seed1 1 ''a'')))"
      using timestamps_set_once[where new_id = "''n''" and new_t = 0 and vid = "''vendor_1''"
        and cname = "''Neha''" and cphone = "''919876500001''" and addr = "''221B Baker St''"
        and its = "[\<lparr>sku = ''chai'', qty = 2\<rparr>]" and old_orders = "[]" and fmt = ByValue
        and oid = "''a''" and k = ReadyAt and cs = "[]" and orders = "run_calls ByValue to_accepted seeds"
        and ord = "apply_calls ''a'' to_accepted (seed1 1 ''a'')"
        and c = "OrderReady ''a''" and t = 4] h by blast
  qed simp_all
  have s3: "stamp_of AssignedAt (apply_calls ''a'' to_ready (seed1 1 ''a'')) = None \<and>
    (\<exists>ord'. map_of (fst (call_tool ByValue 5 (DeliveryAssign ''a'' ''agent_1'')
                       (run_calls ByValue to_ready seeds))) ''a'' = Some ord' \<and>
       stamp_of AssignedAt ord' = Some 5)"
  proof (rule fires_set[OF h])
    show "precondition (DeliveryAssign ''a'' ''agent_1'') (apply_calls ''a'' to_ready (seed1 1 ''a''))"
      by (simp add: ready_order delivery_agents_def)
    show "\<exists>ord'. map_of (fst (call_tool ByValue 5 (DeliveryAssign ''a'' ''agent_1'')
                     (run_calls ByValue to_ready seeds))) ''a'' = Some ord' \<and>
         (if target (DeliveryAssign ''a'' ''agent_1'') = ''a'' \<and>
             fires AssignedAt (DeliveryAssign ''a'' ''agent_1'') \<and>
             ok (snd (call_tool ByValue 5 (DeliveryAssign ''a'' ''agent_1'')
                        (run_calls ByValue to_ready seeds)))
          then stamp_of AssignedAt (apply_calls ''a'' to_ready (seed1 1 ''a'')) = None \<and>
               stamp_of AssignedAt ord' = Some 5
          else stamp_of AssignedAt ord' = stamp_of AssignedAt (apply_calls ''a'' to_ready (seed1 1 ''a'')))"
      using timestamps_set_once[where new_id = "''n''" and new_t = 0 and vid = "''vendor_1''"
        and cname = "''Neha''" and cphone = "''919876500001''" and addr = "''221B Baker St''"
        and its = "[\<lparr>sku = ''chai'', qty = 2\<rparr>]" and old_orders = "[]" and fmt = ByValue
        and oid = "''a''" and k = AssignedAt and cs = "[]" and orders = "run_calls ByValue to_ready seeds"
        and ord = "apply_calls ''a'' to_ready (seed1 1 ''a'')"
        and c = "DeliveryAssign ''a'' ''agent_1''" and t = 5] h by blast
  qed simp_all
  have s4: "stamp_of DeliveredAt (apply_calls ''a'' to_assigned (seed1 1 ''a'')) = None \<and>
    (\<exists>ord'. map_of (fst (call_tool ByValue 6 (OrderDelivered ''a'')
                       (run_calls ByValue to_assigned seeds))) ''a'' = Some ord' \<and>
       stamp_of DeliveredAt ord' = Some 6)"
  proof (rule fires_set[OF h])
    show "precondition (OrderDelivered ''a'') (apply_calls ''a'' to_assigned (seed1 1 ''a''))"
      by (simp add: assigned_order)
    show "\<exists>ord'. map_of (fst (call_tool ByValue 6 (OrderDelivered ''a'')
                     (run_calls ByValue to_assigned seeds))) ''a'' = Some ord' \<and>
         (if target (OrderDelivered ''a'') = ''a'' \<and> fires DeliveredAt (OrderDelivered ''a'') \<and>
             ok (snd (call_tool ByValue 6 (OrderDelivered ''a'') (run_calls ByValue to_assigned seeds)))
          then stamp_of DeliveredAt (apply_calls ''a'' to_assigned (seed1 1 ''a'')) = None \<and>
               stamp_of DeliveredAt ord' = Some 6
          else stamp_of DeliveredAt ord' =
               stamp_of DeliveredAt (apply_calls ''a'' to_assigned (seed1 1 ''a'')))"
      using timestamps_set_once[where new_id = "''n''" and new_t = 0 and vid = "''vendor_1''"
        and cname = "''Neha''" and cphone = "''919876500001''" and addr = "''221B Baker St''"
        and its = "[\<lparr>sku = ''chai'', qty = 2\<rparr>]" and old_orders = "[]" and fmt = ByValue
        and oid = "''a''" and k = DeliveredAt and cs = "[]" and orders = "run_calls ByValue to_assigned seeds"
        and ord = "apply_calls ''a'' to_assigned (seed1 1 ''a'')"
        and c = "OrderDelivered ''a''" and t = 6] h by blast
  qed simp_all
  have s5: "stamp_of PaidAt (apply_calls ''a'' to_delivered_requested (seed1 1 ''a'')) = None \<and>
    (\<exists>ord'. map_of (fst (call_tool ByValue 8 (OrderPaid ''a'')
                       (run_calls ByValue to_delivered_requested seeds))) ''a'' = Some ord' \<and>
       stamp_of PaidAt ord' = Some 8)"
  proof (rule fires_set[OF h])
    show "precondition (OrderPaid ''a'') (apply_calls ''a'' to_delivered_requested (seed1 1 ''a''))"
      by (simp add: delivered_requested_order)
    show "\<exists>ord'. map_of (fst (call_tool ByValue 8 (OrderPaid ''a'')
                     (run_calls ByValue to_delivered_requested seeds))) ''a'' = Some ord' \<and>
         (if target (OrderPaid ''a'') = ''a'' \<and> fires PaidAt (OrderPaid ''a'') \<and>
             ok (snd (call_tool ByValue 8 (OrderPaid ''a'')
                        (run_calls ByValue to_delivered_requested seeds)))
          then stamp_of PaidAt (apply_calls ''a'' to_delivered_requested (seed1 1 ''a'')) = None \<and>
               stamp_of PaidAt ord' = Some 8
          else stamp_of PaidAt ord' =
               stamp_of PaidAt (apply_calls ''a'' to_delivered_requested (seed1 1 ''a'')))"
      using timestamps_set_once[where new_id = "''n''" and new_t = 0 and vid = "''vendor_1''"
        and cname = "''Neha''" and cphone = "''919876500001''" and addr = "''221B Baker St''"
        and its = "[\<lparr>sku = ''chai'', qty = 2\<rparr>]" and old_orders = "[]" and fmt = ByValue
        and oid = "''a''" and k = PaidAt and cs = "[]" and orders = "run_calls ByValue to_delivered_requested seeds"
        and ord = "apply_calls ''a'' to_delivered_requested (seed1 1 ''a'')"
        and c = "OrderPaid ''a''" and t = 8] h by blast
  qed simp_all
  have keep: "\<exists>ord'. map_of (run_calls ByValue retries (run_calls ByValue to_paid seeds)) ''a'' = Some ord' \<and>
      stamp_of k ord' = Some x"
    if "stamp_of k (apply_calls ''a'' to_paid (seed1 1 ''a'')) = Some x" for k x
    using timestamps_set_once[where new_id = "''n''" and new_t = 0 and vid = "''vendor_1''"
        and cname = "''Neha''" and cphone = "''919876500001''" and addr = "''221B Baker St''"
        and its = "[\<lparr>sku = ''chai'', qty = 2\<rparr>]" and old_orders = "[]" and fmt = ByValue
        and oid = "''a''" and k = k and cs = retries and orders = "run_calls ByValue to_paid seeds"
        and ord = "apply_calls ''a'' to_paid (seed1 1 ''a'')" and c = "OrderPaid ''a''" and t = 0]
      h[of to_paid] that by blast
  have k1: "\<exists>ord'. map_of (run_calls ByValue retries (run_calls ByValue to_paid seeds)) ''a'' = Some ord' \<and>
      stamp_of AcceptedAt ord' = Some 3"
    by (rule keep) (simp add: paid_order)
  have k2: "\<exists>ord'. map_of (run_calls ByValue retries (run_calls ByValue to_paid seeds)) ''a'' = Some ord' \<and>
      stamp_of ReadyAt ord' = Some 4"
    by (rule keep) (simp add: paid_order)
  have k3: "\<exists>ord'. map_of (run_calls ByValue retries (run_calls ByValue to_paid seeds)) ''a'' = Some ord' \<and>
      stamp_of AssignedAt ord' = Some 5"
    by (rule keep) (simp add: paid_order)
  have k4: "\<exists>ord'. map_of (run_calls ByValue retries (run_calls ByValue to_paid seeds)) ''a'' = Some ord' \<and>
      stamp_of DeliveredAt ord' = Some 6"
    by (rule keep) (simp add: paid_order)
  have k5: "\<exists>ord'. map_of (run_calls ByValue retries (run_calls ByValue to_paid seeds)) ''a'' = Some ord' \<and>
      stamp_of PaidAt ord' = Some 8"
    by (rule keep) (simp add: paid_order)
  from new h[of to_paid] s1 s2 s3 s4 s5 k1 k2 k3 k4 k5 show ?thesis by blast
qed

text \<open>
  Claim C8, as the code has it. \<open>orders_list\<close> leaves the store unchanged and returns
  exactly the orders of the vendor, restricted to those whose status value equals the
  filter when the filter is a non-empty string; a filter that is absent or the empty
  string restricts nothing. The result is in descending order of \<open>created_at\<close>, orders
  with equal \<open>created_at\<close> in the order of the store; \<open>count\<close> is its length; the
  filtered result is the unfiltered one with the orders of other statuses removed; and
  when nothing matches the result is the empty list.
\<close>

theorem orders_list_query:
  "fst (orders_list vid flt orders) = orders \<and>
   mset (orders_of (snd (orders_list vid flt orders))) =
     mset (filter (\<lambda>x. vendor_id x = vid \<and>
             (truthy flt \<longrightarrow> Some (status_value (status x)) = flt)) (map snd orders)) \<and>
   sorted_wrt (\<lambda>x y. created_at y \<le> created_at x) (orders_of (snd (orders_list vid flt orders))) \<and>
   (\<forall>k. filter (\<lambda>x. created_at x = k) (orders_of (snd (orders_list vid flt orders))) =
        filter (\<lambda>x. created_at x = k)
          (filter (\<lambda>x. vendor_id x = vid \<and>
             (truthy flt \<longrightarrow> Some (status_value (status x)) = flt)) (map snd orders))) \<and>
   count (snd (orders_list vid flt orders)) = length (orders_of (snd (orders_list vid flt orders))) \<and>
   orders_of (snd (orders_list vid flt orders)) =
     filter (\<lambda>x. truthy flt \<longrightarrow> Some (status_value (status x)) = flt)
       (orders_of (snd (orders_list vid None orders))) \<and>
   (filter (\<lambda>x. vendor_id x = vid \<and>
       (truthy flt \<longrightarrow> Some (status_value (status x)) = flt)) (map snd orders) = [] \<longrightarrow>
    orders_of (snd (orders_list vid flt orders)) = [] \<and>
    count (snd (orders_list vid flt orders)) = 0)"
proof -
  let ?P = "\<lambda>x. vendor_id x = vid \<and> (truthy flt \<longrightarrow> Some (status_value (status x)) = flt)"
  let ?res = "sort_created_desc (filter ?P (map snd orders))"
  have res: "orders_of (snd (orders_list vid flt orders)) = ?res"
    by (simp add: orders_list_result)
  have cnt: "count (snd (orders_list vid flt orders)) = length (filter ?P (map snd orders))"
    by (simp add: orders_list_result)
  have len: "length ?res = length (filter ?P (map snd orders))"
    by (simp add: sort_created_desc_def)
  have unf: "orders_of (snd (orders_list vid None orders)) =
      sort_created_desc (filter (\<lambda>x. vendor_id x = vid) (map snd orders))"
    by (simp add: orders_list_result)
  have c1: "fst (orders_list vid flt orders) = orders"
    by (simp add: orders_list_result)
  have c2: "mset ?res = mset (filter ?P (map snd orders))"
    by (rule sort_created_desc_mset)
  have c3: "sorted_wrt (\<lambda>x y. created_at y \<le> created_at x) ?res"
    by (rule sort_created_desc_sorted)
  have c4: "\<forall>k. filter (\<lambda>x. created_at x = k) ?res =
        filter (\<lambda>x. created_at x = k) (filter ?P (map snd orders))"
    by (simp only: sort_created_desc_stable simp_thms)
  have c5: "length (filter ?P (map snd orders)) = length ?res"
    by (simp only: len)
  have c6: "?res = filter (\<lambda>x. truthy flt \<longrightarrow> Some (status_value (status x)) = flt)
       (sort_created_desc (filter (\<lambda>x. vendor_id x = vid) (map snd orders)))"
    by (simp add: sort_created_desc_filter conj_commute)
  have c7: "filter ?P (map snd orders) = [] \<longrightarrow>
      ?res = [] \<and> length (filter ?P (map snd orders)) = 0"
    by (simp add: sort_created_desc_def)
  show ?thesis
    unfolding res cnt unf
    using c1 c2 c3 c4 c5 c6 c7 by blast
qed

theorem orders_list_query_witness:
  "orders_of (snd (orders_list ''vendor_1'' (Some ''pending'') seeds))
     = [seed2 2 ''b'', seed1 1 ''a''] \<and>
   orders_of (snd (orders_list ''vendor_1'' (Some ''paid'') seeds)) = [] \<and>
   count (snd (orders_list ''vendor_1'' (Some ''paid'') seeds)) = 0 \<and>
   fst (orders_list ''vendor_1'' (Some ''paid'') seeds) = seeds"
  using orders_list_query[of "''vendor_1''" "Some ''paid''" seeds]
  by (simp add: seeds_listing)

text \<open>
  The claim as stated (with a status filter provided, exactly the orders whose status
  matches it) fails for the empty string: given as the filter, it matches the status of
  no order, and both seed orders are returned.
\<close>

theorem orders_list_empty_filter_counterexample:
  "orders_of (snd (orders_list ''vendor_1'' (Some '''') seeds)) = [seed2 2 ''b'', seed1 1 ''a''] \<and>
   count (snd (orders_list ''vendor_1'' (Some '''') seeds)) = 2 \<and>
   status_value (status (seed1 1 ''a'')) \<noteq> '''' \<and>
   status_value (status (seed2 2 ''b'')) \<noteq> ''''"
proof -
  have "count (snd (orders_list ''vendor_1'' (Some '''') seeds)) = 2"
    by (simp add: orders_list_result seeds_eq seed1_def seed2_def)
  moreover have "orders_of (snd (orders_list ''vendor_1'' (Some '''') seeds))
      = [seed2 2 ''b'', seed1 1 ''a'']"
    by (simp add: seeds_listing)
  moreover have "status_value (status (seed1 1 ''a'')) \<noteq> ''''"
    by (simp add: seed1_def)
  moreover have "status_value (status (seed2 2 ''b'')) \<noteq> ''''"
    by (simp add: seed2_def)
  ultimately show ?thesis by blast
qed

text \<open>
  Claim C9. The amount and the currency given to \<open>payment_request\<close> have no effect: two
  calls that differ only in them return the same result and leave the same store.
\<close>

theorem payment_request_ignores_amount_currency:
  "payment_request oid amount1 currency1 orders = payment_request oid amount2 currency2 orders"
  by (simp add: payment_request_def)

text \<open>
  Claim C10. For an order whose status is assigned or delivered, \<open>payment_request\<close>
  succeeds, and a second \<open>payment_request\<close> right after it (with any amount and currency)
  returns the same result and leaves the store as the first call left it, the payment
  status being requested.
\<close>

theorem payment_request_idempotent:
  assumes "map_of orders oid = Some ord" and "status ord = ASSIGNED \<or> status ord = DELIVERED"
  shows "ok (snd (payment_request oid amount currency orders)) \<and>
         payment_request oid amount' currency' (fst (payment_request oid amount currency orders))
           = payment_request oid amount currency orders \<and>
         map_of (fst (payment_request oid amount currency orders)) oid
           = Some (ord\<lparr>payment_status := P_REQUESTED\<rparr>)"
proof -
  let ?ord1 = "ord\<lparr>payment_status := P_REQUESTED\<rparr>"
  let ?s1 = "AList.update oid ?ord1 orders"
  let ?r = "[(''ok'', PyBool True),
             (''vendor_message'', PyStr (''Payment request sent for order '' @ oid @ ''.''))]"
  have first: "payment_request oid amount currency orders = (?s1, ?r)"
    using assms(2) by (auto simp: payment_request_found[OF assms(1)])
  have look: "map_of ?s1 oid = Some ?ord1" by (simp add: update_conv')
  have st: "status ?ord1 = ASSIGNED \<or> status ?ord1 = DELIVERED" using assms(2) by simp
  have second: "payment_request oid amount' currency' ?s1 = (?s1, ?r)"
    using st by (auto simp: payment_request_found[OF look])
  show ?thesis by (simp only: first second look fst_conv snd_conv ok_success simp_thms)
qed

theorem payment_request_idempotent_witness:
  "map_of (run_calls ByValue to_assigned seeds) ''a'' =
     Some (apply_calls ''a'' to_assigned (seed1 1 ''a'')) \<and>
   status (apply_calls ''a'' to_assigned (seed1 1 ''a'')) = ASSIGNED \<and>
   ok (snd (payment_request ''a'' None ''INR'' (run_calls ByValue to_assigned seeds))) \<and>
   payment_request ''a'' (Some 100) ''USD''
       (fst (payment_request ''a'' None ''INR'' (run_calls ByValue to_assigned seeds)))
     = payment_request ''a'' None ''INR'' (run_calls ByValue to_assigned seeds)"
proof -
  have st: "status (apply_calls ''a'' to_assigned (seed1 1 ''a'')) = ASSIGNED"
    by (simp add: assigned_order)
  then have st': "status (apply_calls ''a'' to_assigned (seed1 1 ''a'')) = ASSIGNED \<or>
       status (apply_calls ''a'' to_assigned (seed1 1 ''a'')) = DELIVERED" by simp
  note w = payment_request_idempotent[OF assigned_lookup st',
      of None "''INR''" "Some 100" "''USD''"]
  show ?thesis using w assigned_lookup st by simp
qed

end
